theory Spec2Isabelle
  imports Main
begin

section \<open>JavaScript strings and values\<close>

text \<open>
  Strings are lists of code units. The helpers below are the library functions the
  streaming client calls on them: \<^verbatim>\<open>String.prototype.trim\<close>, \<^verbatim>\<open>startsWith\<close>,
  \<^verbatim>\<open>split('\n')\<close>, \<^verbatim>\<open>parseInt(s, 10)\<close> and the operator \<^verbatim>\<open>||\<close> on numbers.
  \<^verbatim>\<open>slice(n)\<close> with a non-negative \<open>n\<close> is \<open>drop n\<close>.
\<close>

definition js_whitespace :: "char \<Rightarrow> bool" where
  "js_whitespace c \<longleftrightarrow>
     c = CHR 0x09 \<or> c = CHR 0x0A \<or> c = CHR 0x0B \<or> c = CHR 0x0C \<or> c = CHR 0x0D \<or>
     c = CHR 0x20 \<or> c = CHR 0xA0"

definition trim :: "string \<Rightarrow> string" where
  "trim s = rev (dropWhile js_whitespace (rev (dropWhile js_whitespace s)))"

definition startsWith :: "string \<Rightarrow> string \<Rightarrow> bool" where
  "startsWith s p \<longleftrightarrow> take (length p) s = p"

text \<open>\<^verbatim>\<open>s.split('\n')\<close>: the pieces between line feeds; never an empty array.\<close>

fun split_nl :: "string \<Rightarrow> string list" where
  "split_nl [] = [[]]"
| "split_nl (c # cs) =
     (if c = CHR 0x0A then [] # split_nl cs
      else (case split_nl cs of [] \<Rightarrow> [[c]] | l # ls \<Rightarrow> (c # l) # ls))"

text \<open>\<^verbatim>\<open>lines.pop() || ''\<close>: the last element, or the empty string when the array is
  empty (\<^verbatim>\<open>undefined\<close>) or its last element is the empty string.\<close>

definition pop_or_empty :: "string list \<Rightarrow> string" where
  "pop_or_empty lines = (if lines = [] then [] else if last lines = [] then [] else last lines)"

definition is_digit :: "char \<Rightarrow> bool" where
  "is_digit c \<longleftrightarrow> 48 \<le> (of_char c :: nat) \<and> (of_char c :: nat) \<le> 57"

fun digits_value :: "nat \<Rightarrow> string \<Rightarrow> nat" where
  "digits_value acc [] = acc"
| "digits_value acc (c # cs) = digits_value (10 * acc + ((of_char c :: nat) - 48)) cs"

text \<open>\<^verbatim>\<open>parseInt(s, 10)\<close>: leading white space, an optional sign, then the longest run of
  decimal digits; \<open>None\<close> stands for \<^verbatim>\<open>NaN\<close>.\<close>

definition parseInt10 :: "string \<Rightarrow> int option" where
  "parseInt10 s =
     (let t = dropWhile js_whitespace s;
          neg = (t \<noteq> [] \<and> hd t = CHR ''-'');
          u = (if t \<noteq> [] \<and> (hd t = CHR ''-'' \<or> hd t = CHR ''+'') then tl t else t);
          ds = takeWhile is_digit u
      in if ds = [] then None
         else Some (if neg then - int (digits_value 0 ds) else int (digits_value 0 ds)))"

text \<open>\<^verbatim>\<open>n || d\<close> on numbers: \<open>d\<close> when \<open>n\<close> is zero.\<close>

definition js_or :: "int \<Rightarrow> int \<Rightarrow> int" where
  "js_or n d = (if n = 0 then d else n)"

text \<open>An opaque JSON value (message metadata), kept as its text.\<close>

type_synonym json = string

datatype js_error = AbortError | Error string

section \<open>The streaming client (\<^verbatim>\<open>lib/streaming/sseClient.ts\<close>)\<close>

text \<open>
  Modelled from the spec: the declaration of \<^verbatim>\<open>StreamingChatResponse\<close> (module
  \<^verbatim>\<open>types\<close>) is not among the sources; section 6 of the specification gives its shape,
  \<^verbatim>\<open>{ type: "chunk"|"complete"|"error", content: string, metadata?: object }\<close>.
\<close>

datatype fragment_type = Chunk | Complete | ErrorFragment

record StreamingChatResponse =
  resp_type :: fragment_type
  resp_content :: string
  resp_metadata :: "json option"

datatype ConnectionStatus = Connecting | Connected | Disconnected | ConnError

text \<open>
  The callbacks of \<^verbatim>\<open>SSEClientOptions\<close> act on the state \<open>'w\<close> of whoever owns the
  client. \<open>onMessage\<close> may throw (\<open>Inl\<close>); a callback that is not supplied is the
  identity. \<^verbatim>\<open>url\<close>, \<^verbatim>\<open>data\<close> and \<^verbatim>\<open>headers\<close> only feed \<^verbatim>\<open>fetch\<close>, whose outcome is an
  input of the model.
\<close>

record 'w SSEClientOptions =
  onMessage :: "StreamingChatResponse \<Rightarrow> 'w \<Rightarrow> js_error + 'w"
  onError :: "js_error \<Rightarrow> 'w \<Rightarrow> 'w"
  onComplete :: "'w \<Rightarrow> 'w"
  onConnectionChange :: "ConnectionStatus \<Rightarrow> 'w \<Rightarrow> 'w"
  retryAttempts :: "int option"
  retryDelay :: "int option"

text \<open>
  The private fields of the class. \<open>abortController\<close> is \<open>None\<close> for \<^verbatim>\<open>null\<close> and
  \<open>Some aborted\<close> otherwise; \<open>options_retryAttempts\<close> and \<open>options_retryDelay\<close> are
  \<^verbatim>\<open>this.options.retryAttempts\<close> and \<^verbatim>\<open>this.options.retryDelay\<close> after the constructor
  has filled in the defaults.
\<close>

record SSEClient =
  abortController :: "bool option"
  retryCount :: nat
  isConnected :: bool
  options_retryAttempts :: int
  options_retryDelay :: int

definition SSEClient_new :: "'w SSEClientOptions \<Rightarrow> SSEClient" where
  "SSEClient_new opts =
     \<lparr> abortController = None, retryCount = 0, isConnected = False,
       options_retryAttempts = (case retryAttempts opts of None \<Rightarrow> 3 | Some n \<Rightarrow> n),
       options_retryDelay = (case retryDelay opts of None \<Rightarrow> 1000 | Some d \<Rightarrow> d) \<rparr>"

text \<open>What the client does to its environment, in order: requests, timers, console lines.\<close>

datatype effect =
    Fetch
  | SetTimeout int
  | WarnRetrying nat int
  | WarnParseFailed string
  | DebugEventType string
  | ErrorLogged js_error

record 'w world =
  client :: SSEClient
  effects :: "effect list"
  app :: 'w

definition log :: "effect \<Rightarrow> 'w world \<Rightarrow> 'w world" where
  "log e w = w\<lparr>effects := effects w @ [e]\<rparr>"

definition callback :: "('w \<Rightarrow> 'w) \<Rightarrow> 'w world \<Rightarrow> 'w world" where
  "callback f w = w\<lparr>app := f (app w)\<rparr>"

text \<open>
  \<^verbatim>\<open>processLine\<close>. \<open>JSON_parse\<close> is \<^verbatim>\<open>JSON.parse\<close> typed as the source types its result;
  \<open>None\<close> is a thrown \<^verbatim>\<open>SyntaxError\<close>. The \<^verbatim>\<open>try\<close> block holds both the parse and the call
  of \<^verbatim>\<open>onMessage\<close>, so an exception of either is caught and logged.
\<close>

definition processLine ::
  "(string \<Rightarrow> StreamingChatResponse option) \<Rightarrow> 'w SSEClientOptions \<Rightarrow> string \<Rightarrow> 'w world \<Rightarrow> 'w world"
where
  "processLine JSON_parse opts line w =
     (let trimmedLine = trim line in
      if trimmedLine = [] \<or> startsWith trimmedLine '':'' then w
      else if startsWith trimmedLine ''data: '' then
        (let data = drop 6 trimmedLine in
         if data = ''[DONE]'' then callback (onComplete opts) w
         else (case JSON_parse data of
                 None \<Rightarrow> log (WarnParseFailed data) w
               | Some parsed \<Rightarrow>
                   (case onMessage opts parsed (app w) of
                      Inl error \<Rightarrow> log (WarnParseFailed data) w
                    | Inr a \<Rightarrow> w\<lparr>app := a\<rparr>)))
      else if startsWith trimmedLine ''event: '' then
        log (DebugEventType (drop 7 trimmedLine)) w
      else if startsWith trimmedLine ''retry: '' then
        (case parseInt10 (drop 7 trimmedLine) of
           None \<Rightarrow> w
         | Some retryMs \<Rightarrow> w\<lparr>client := (client w)\<lparr>options_retryDelay := retryMs\<rparr>\<rparr>)
      else w)"

text \<open>
  The body of the \<^verbatim>\<open>while\<close> loop of \<^verbatim>\<open>processStream\<close> over the decoded chunks the reader
  delivers (\<^verbatim>\<open>decoder.decode(value, {stream: true})\<close>), with the carried \<open>buffer\<close>.
\<close>

fun processChunks ::
  "(string \<Rightarrow> StreamingChatResponse option) \<Rightarrow> 'w SSEClientOptions \<Rightarrow> string list \<Rightarrow> string \<Rightarrow>
   'w world \<Rightarrow> string \<times> 'w world"
where
  "processChunks JSON_parse opts [] buffer w = (buffer, w)"
| "processChunks JSON_parse opts (chunk # rest) buffer w =
     (let lines = split_nl (buffer @ chunk);
          buffer' = pop_or_empty lines;
          w' = foldl (\<lambda>w line. processLine JSON_parse opts line w) w (butlast lines)
      in processChunks JSON_parse opts rest buffer' w')"

text \<open>\<^verbatim>\<open>disconnect()\<close>.\<close>

definition disconnect :: "'w SSEClientOptions \<Rightarrow> 'w world \<Rightarrow> 'w world" where
  "disconnect opts w =
     callback (onConnectionChange opts Disconnected)
       (w\<lparr>client := (client w)\<lparr>abortController := None, isConnected := False\<rparr>\<rparr>)"

text \<open>
  How a stream ends: the reader reports \<^verbatim>\<open>done\<close>, a read rejects with a transport
  error, or \<^verbatim>\<open>disconnect()\<close> is called while a read is pending and the read rejects with
  an \<^verbatim>\<open>AbortError\<close>.
\<close>

datatype stream_end = EndOfStream | ReadFails string | ReadAborted

text \<open>\<^verbatim>\<open>processStream\<close>: the loop, the \<^verbatim>\<open>done\<close> branch and the \<^verbatim>\<open>finally\<close> block. The first
  component is the exception that leaves the method, if any.\<close>

definition processStream ::
  "(string \<Rightarrow> StreamingChatResponse option) \<Rightarrow> 'w SSEClientOptions \<Rightarrow> string list \<Rightarrow> stream_end \<Rightarrow>
   'w world \<Rightarrow> js_error option \<times> 'w world"
where
  "processStream JSON_parse opts chunks end w =
     (let w1 = snd (processChunks JSON_parse opts chunks [] w);
          finally = (\<lambda>w. callback (onConnectionChange opts Disconnected)
                            (w\<lparr>client := (client w)\<lparr>isConnected := False\<rparr>\<rparr>))
      in case end of
           EndOfStream \<Rightarrow> (None, finally (callback (onComplete opts) w1))
         | ReadFails msg \<Rightarrow> (Some (Error msg), finally w1)
         | ReadAborted \<Rightarrow> (Some AbortError, finally (disconnect opts w1)))"

text \<open>
  What \<^verbatim>\<open>fetch\<close> gives one connection attempt: a rejection with a transport error, a
  rejection with \<^verbatim>\<open>AbortError\<close> after \<^verbatim>\<open>disconnect()\<close>, a response that is not \<^verbatim>\<open>ok\<close>
  (status as the template literal prints it, and status text), a response without a
  body, or a body: its chunks and its end.
\<close>

datatype fetch_result =
    FetchRejects string
  | FetchAborted
  | NotOk string string
  | NoBody
  | Body "string list" stream_end

text \<open>The \<^verbatim>\<open>try\<close> block of \<^verbatim>\<open>attemptConnection\<close>; the first component is the exception
  handed to the \<^verbatim>\<open>catch\<close> block, if any.\<close>

definition attemptConnection_try ::
  "(string \<Rightarrow> StreamingChatResponse option) \<Rightarrow> 'w SSEClientOptions \<Rightarrow> fetch_result \<Rightarrow>
   'w world \<Rightarrow> js_error option \<times> 'w world"
where
  "attemptConnection_try JSON_parse opts response w =
     (let w1 = log Fetch (callback (onConnectionChange opts Connecting) w) in
      case response of
        FetchRejects msg \<Rightarrow> (Some (Error msg), w1)
      | FetchAborted \<Rightarrow> (Some AbortError, disconnect opts w1)
      | NotOk status statusText \<Rightarrow> (Some (Error (''HTTP '' @ status @ '': '' @ statusText)), w1)
      | NoBody \<Rightarrow> (Some (Error ''Response body is not available for streaming''), w1)
      | Body chunks end \<Rightarrow>
          processStream JSON_parse opts chunks end
            (callback (onConnectionChange opts Connected)
               (w1\<lparr>client := (client w1)\<lparr>isConnected := True\<rparr>\<rparr>)))"

text \<open>
  The \<^verbatim>\<open>catch\<close> block, up to the recursive call. \<open>disconnected\<close> tells whether
  \<^verbatim>\<open>disconnect()\<close> was called while the retry delay was awaited.
\<close>

datatype next_step = Retry | Resolve | Reject js_error

definition attemptConnection_catch ::
  "'w SSEClientOptions \<Rightarrow> js_error \<Rightarrow> bool \<Rightarrow> 'w world \<Rightarrow> next_step \<times> 'w world"
where
  "attemptConnection_catch opts error disconnected w =
     (if error = AbortError then (Resolve, w)
      else
        (let w1 = callback (onConnectionChange opts ConnError)
                    (w\<lparr>client := (client w)\<lparr>isConnected := False\<rparr>\<rparr>)
         in if int (retryCount (client w1)) < js_or (options_retryAttempts (client w1)) 3 then
              (let n = Suc (retryCount (client w1));
                   w2 = w1\<lparr>client := (client w1)\<lparr>retryCount := n\<rparr>\<rparr>;
                   w3 = log (WarnRetrying n (options_retryAttempts (client w2))) w2;
                   w4 = log (SetTimeout (js_or (options_retryDelay (client w3)) 1000 * int n)) w3;
                   w5 = (if disconnected then disconnect opts w4 else w4)
               in if abortController (client w5) = Some False then (Retry, w5) else (Resolve, w5))
            else (Reject error, callback (onError opts error) w1)))"

subsection \<open>Facts about one connection attempt\<close>

text \<open>The retry counter and the retry budget are touched by the \<^verbatim>\<open>catch\<close> block only;
  the recursion of \<^verbatim>\<open>attemptConnection\<close> below rests on this.\<close>

lemma log_client [simp]: "client (log e w) = client w" and log_app [simp]: "app (log e w) = app w"
  and log_effects [simp]: "effects (log e w) = effects w @ [e]"
  by (simp_all add: log_def)

lemma callback_client [simp]: "client (callback f w) = client w"
  and callback_app [simp]: "app (callback f w) = f (app w)"
  and callback_effects [simp]: "effects (callback f w) = effects w"
  by (simp_all add: callback_def)

lemma processLine_budget [simp]:
  "retryCount (client (processLine P opts l w)) = retryCount (client w)"
  "options_retryAttempts (client (processLine P opts l w)) = options_retryAttempts (client w)"
  "abortController (client (processLine P opts l w)) = abortController (client w)"
  "isConnected (client (processLine P opts l w)) = isConnected (client w)"
  by (simp_all add: processLine_def Let_def split: option.splits sum.splits)

lemma processLines_budget [simp]:
  "retryCount (client (foldl (\<lambda>w l. processLine P opts l w) w ls)) = retryCount (client w)"
  "options_retryAttempts (client (foldl (\<lambda>w l. processLine P opts l w) w ls)) = options_retryAttempts (client w)"
  "abortController (client (foldl (\<lambda>w l. processLine P opts l w) w ls)) = abortController (client w)"
  "isConnected (client (foldl (\<lambda>w l. processLine P opts l w) w ls)) = isConnected (client w)"
  by (induction ls arbitrary: w) simp_all

lemma processChunks_budget [simp]:
  "retryCount (client (snd (processChunks P opts cs b w))) = retryCount (client w)"
  "options_retryAttempts (client (snd (processChunks P opts cs b w))) = options_retryAttempts (client w)"
  "abortController (client (snd (processChunks P opts cs b w))) = abortController (client w)"
  "isConnected (client (snd (processChunks P opts cs b w))) = isConnected (client w)"
  by (induction cs arbitrary: b w) (simp_all add: Let_def)

lemma disconnect_client [simp]:
  "retryCount (client (disconnect opts w)) = retryCount (client w)"
  "options_retryAttempts (client (disconnect opts w)) = options_retryAttempts (client w)"
  "abortController (client (disconnect opts w)) = None"
  "isConnected (client (disconnect opts w)) = False"
  "effects (disconnect opts w) = effects w"
  by (simp_all add: disconnect_def)

lemma processStream_budget [simp]:
  "retryCount (client (snd (processStream P opts cs e w))) = retryCount (client w)"
  "options_retryAttempts (client (snd (processStream P opts cs e w))) = options_retryAttempts (client w)"
  by (simp_all add: processStream_def Let_def split: stream_end.splits)

lemma attemptConnection_try_budget [simp]:
  "retryCount (client (snd (attemptConnection_try P opts r w))) = retryCount (client w)"
  "options_retryAttempts (client (snd (attemptConnection_try P opts r w))) = options_retryAttempts (client w)"
  by (simp_all add: attemptConnection_try_def Let_def split: fetch_result.splits)

lemma attemptConnection_catch_Retry:
  assumes "attemptConnection_catch opts e d w = (Retry, w')"
  shows "int (retryCount (client w)) < js_or (options_retryAttempts (client w)) 3"
    and "retryCount (client w') = Suc (retryCount (client w))"
    and "options_retryAttempts (client w') = options_retryAttempts (client w)"
    and "abortController (client w') = Some False"
  using assms
  by (auto simp: attemptConnection_catch_def Let_def split: if_splits)

lemma attemptConnection_measure:
  assumes "(Some error, w') = attemptConnection_try P opts r w"
    and "(Retry, w'') = attemptConnection_catch opts error d w'"
  shows "retryCount (client w'') = Suc (retryCount (client w)) \<and>
         options_retryAttempts (client w'') = options_retryAttempts (client w) \<and>
         int (retryCount (client w)) < js_or (options_retryAttempts (client w)) 3"
proof -
  have w': "w' = snd (attemptConnection_try P opts r w)"
    using assms(1) by (metis snd_conv)
  have c: "attemptConnection_catch opts error d w' = (Retry, w'')"
    using assms(2) by simp
  note r = attemptConnection_catch_Retry [OF c]
  show ?thesis using r(1,2,3) by (simp add: w')
qed

text \<open>
  \<^verbatim>\<open>attemptConnection\<close>. \<open>net k\<close> is what the network does at the \<open>k\<close>-th attempt of
  this call of \<^verbatim>\<open>connect()\<close>: the outcome of \<^verbatim>\<open>fetch\<close> and of the stream, and whether
  \<^verbatim>\<open>disconnect()\<close> is called during the delay that follows a failure. The result is
  \<open>Inl\<close> when the promise rejects.
\<close>

function attemptConnection ::
  "(string \<Rightarrow> StreamingChatResponse option) \<Rightarrow> 'w SSEClientOptions \<Rightarrow> (nat \<Rightarrow> fetch_result \<times> bool) \<Rightarrow>
   nat \<Rightarrow> 'w world \<Rightarrow> (js_error + unit) \<times> 'w world"
where
  "attemptConnection JSON_parse opts net k w =
     (if abortController (client w) = None then (Inl (Error ''Connection aborted''), w)
      else
        (case attemptConnection_try JSON_parse opts (fst (net k)) w of
           (None, w') \<Rightarrow> (Inr (), w')
         | (Some error, w') \<Rightarrow>
             (case attemptConnection_catch opts error (snd (net k)) w' of
                (Retry, w'') \<Rightarrow> attemptConnection JSON_parse opts net (Suc k) w''
              | (Resolve, w'') \<Rightarrow> (Inr (), w'')
              | (Reject e, w'') \<Rightarrow> (Inl e, w''))))"
  by pat_completeness auto
termination
  by (relation "measure (\<lambda>(P, opts, net, k, w).
          nat (js_or (options_retryAttempts (client w)) 3 - int (retryCount (client w))))")
     (auto dest!: attemptConnection_measure)

declare attemptConnection.simps [simp del]

text \<open>\<^verbatim>\<open>connect()\<close>: a fresh abort controller, the counter at zero, the first attempt.\<close>

definition connect ::
  "(string \<Rightarrow> StreamingChatResponse option) \<Rightarrow> 'w SSEClientOptions \<Rightarrow> (nat \<Rightarrow> fetch_result \<times> bool) \<Rightarrow>
   'w world \<Rightarrow> (js_error + unit) \<times> 'w world"
where
  "connect JSON_parse opts net w =
     attemptConnection JSON_parse opts net 0
       (w\<lparr>client := (client w)\<lparr>abortController := Some False, retryCount := 0\<rparr>\<rparr>)"

section \<open>The job collection (\<^verbatim>\<open>lib/stores/test.ts\<close>) and the job event router\<close>

text \<open>
  Modelled from the spec: the declaration of \<^verbatim>\<open>ProcessingJob\<close> (module \<^verbatim>\<open>types\<close>) is not
  among the sources; section 3 of the specification lists its fields, and the tests of
  the repository build values of that shape.
\<close>

datatype JobStatus = Pending | Running | Completed | Failed | Cancelled

record ProcessingJob =
  jobId :: string
  status :: JobStatus
  progress :: int
  currentStep :: string
  errorMessage :: "string option"
  estimatedCompletion :: "string option"
  job_createdAt :: string
  job_updatedAt :: string

text \<open>\<^verbatim>\<open>Partial<ProcessingJob>\<close>: every key may be absent.\<close>

record JobUpdate =
  upd_jobId :: "string option"
  upd_status :: "JobStatus option"
  upd_progress :: "int option"
  upd_currentStep :: "string option"
  upd_errorMessage :: "string option"
  upd_estimatedCompletion :: "string option"
  upd_createdAt :: "string option"
  upd_updatedAt :: "string option"

text \<open>The object spread \<^verbatim>\<open>{ ...job, ...updates }\<close>: a key of \<open>updates\<close> wins.\<close>

definition spread_job :: "ProcessingJob \<Rightarrow> JobUpdate \<Rightarrow> ProcessingJob" where
  "spread_job job updates =
     \<lparr> jobId = (case upd_jobId updates of None \<Rightarrow> jobId job | Some v \<Rightarrow> v),
       status = (case upd_status updates of None \<Rightarrow> status job | Some v \<Rightarrow> v),
       progress = (case upd_progress updates of None \<Rightarrow> progress job | Some v \<Rightarrow> v),
       currentStep = (case upd_currentStep updates of None \<Rightarrow> currentStep job | Some v \<Rightarrow> v),
       errorMessage = (case upd_errorMessage updates of None \<Rightarrow> errorMessage job | Some v \<Rightarrow> Some v),
       estimatedCompletion =
         (case upd_estimatedCompletion updates of None \<Rightarrow> estimatedCompletion job | Some v \<Rightarrow> Some v),
       job_createdAt = (case upd_createdAt updates of None \<Rightarrow> job_createdAt job | Some v \<Rightarrow> v),
       job_updatedAt = (case upd_updatedAt updates of None \<Rightarrow> job_updatedAt job | Some v \<Rightarrow> v) \<rparr>"

text \<open>A whole job passed where a partial one is expected.\<close>

definition as_update :: "ProcessingJob \<Rightarrow> JobUpdate" where
  "as_update job =
     \<lparr> upd_jobId = Some (jobId job), upd_status = Some (status job),
       upd_progress = Some (progress job), upd_currentStep = Some (currentStep job),
       upd_errorMessage = errorMessage job, upd_estimatedCompletion = estimatedCompletion job,
       upd_createdAt = Some (job_createdAt job), upd_updatedAt = Some (job_updatedAt job) \<rparr>"

datatype FilterStatus = FilterAll | FilterCompleted | FilterProcessing | FilterFailed

text \<open>The state of the store; \<open>'t\<close> is the type of test results, which the job
  actions never look at.\<close>

record 't TestState =
  tests :: "'t list"
  currentTest :: "'t option"
  isLoadingTests :: bool
  testsError :: "string option"
  processingJobs :: "ProcessingJob list"
  isLoadingJobs :: bool
  jobsError :: "string option"
  selectedTestId :: "string option"
  filterStatus :: FilterStatus

text \<open>\<^verbatim>\<open>updateJobStatus\<close>. The job id is \<open>None\<close> when the caller read it from a payload
  that has none (\<^verbatim>\<open>update.jobId\<close> is \<^verbatim>\<open>undefined\<close>); no job has such an id.\<close>

definition updateJobStatus :: "string option \<Rightarrow> JobUpdate \<Rightarrow> 't TestState \<Rightarrow> 't TestState" where
  "updateJobStatus jid updates s =
     (let updatedJobs =
            map (\<lambda>job. if Some (jobId job) = jid then spread_job job updates else job)
              (processingJobs s)
      in s\<lparr>processingJobs := updatedJobs\<rparr>)"

text \<open>\<^verbatim>\<open>Array.prototype.findIndex\<close>; \<open>None\<close> is \<open>-1\<close>.\<close>

fun findIndex :: "('a \<Rightarrow> bool) \<Rightarrow> 'a list \<Rightarrow> nat option" where
  "findIndex p [] = None"
| "findIndex p (x # xs) =
     (if p x then Some 0 else (case findIndex p xs of None \<Rightarrow> None | Some i \<Rightarrow> Some (Suc i)))"

definition addJob :: "ProcessingJob \<Rightarrow> 't TestState \<Rightarrow> 't TestState" where
  "addJob job s =
     (case findIndex (\<lambda>j. jobId j = jobId job) (processingJobs s) of
        Some existingJobIndex \<Rightarrow> s\<lparr>processingJobs := (processingJobs s)[existingJobIndex := job]\<rparr>
      | None \<Rightarrow> s\<lparr>processingJobs := job # processingJobs s\<rparr>)"

definition removeJob :: "string \<Rightarrow> 't TestState \<Rightarrow> 't TestState" where
  "removeJob jid s = s\<lparr>processingJobs := filter (\<lambda>job. jobId job \<noteq> jid) (processingJobs s)\<rparr>"

text \<open>
  The hook \<^verbatim>\<open>useETLMonitoring\<close>: its listeners act on the store and write to the console.
  The browser's \<^verbatim>\<open>EventSource\<close> hands each listener the \<^verbatim>\<open>data\<close> text of one event;
  \<^verbatim>\<open>JSON.parse\<close> is a parameter typed as each listener uses its result, \<open>None\<close> when it
  throws.
\<close>

datatype etl_console = FailedToParseUpdate | FailedToParseEvent string

record 't etl_world =
  testStore :: "'t TestState"
  etl_errors :: "etl_console list"

record JobMessage =
  message_type :: string
  message_job :: "ProcessingJob option"
  message_jobId :: "string option"

definition handleJobUpdate :: "JobMessage \<Rightarrow> 't TestState \<Rightarrow> 't TestState" where
  "handleJobUpdate data s =
     (if message_type data = ''job_update'' \<and> message_job data \<noteq> None then
        (case message_job data of
           Some job \<Rightarrow> updateJobStatus (Some (jobId job)) (as_update job) s
         | None \<Rightarrow> s)
      else if message_type data = ''job_created'' \<and> message_job data \<noteq> None then
        (case message_job data of Some job \<Rightarrow> addJob job s | None \<Rightarrow> s)
      else if message_type data = ''job_removed'' \<and> message_jobId data \<noteq> None
              \<and> message_jobId data \<noteq> Some [] then
        (case message_jobId data of Some jid \<Rightarrow> removeJob jid s | None \<Rightarrow> s)
      else s)"

definition eventSource_onmessage ::
  "(string \<Rightarrow> JobMessage option) \<Rightarrow> string \<Rightarrow> 't etl_world \<Rightarrow> 't etl_world" where
  "eventSource_onmessage JSON_parse data w =
     (case JSON_parse data of
        None \<Rightarrow> w\<lparr>etl_errors := etl_errors w @ [FailedToParseUpdate]\<rparr>
      | Some parsed \<Rightarrow> w\<lparr>testStore := handleJobUpdate parsed (testStore w)\<rparr>)"

definition on_job_started ::
  "(string \<Rightarrow> ProcessingJob option) \<Rightarrow> string \<Rightarrow> 't etl_world \<Rightarrow> 't etl_world" where
  "on_job_started JSON_parse data w =
     (case JSON_parse data of
        None \<Rightarrow> w\<lparr>etl_errors := etl_errors w @ [FailedToParseEvent ''job_started'']\<rparr>
      | Some job \<Rightarrow> w\<lparr>testStore := addJob job (testStore w)\<rparr>)"

definition on_job_progress ::
  "(string \<Rightarrow> JobUpdate option) \<Rightarrow> string \<Rightarrow> 't etl_world \<Rightarrow> 't etl_world" where
  "on_job_progress JSON_parse data w =
     (case JSON_parse data of
        None \<Rightarrow> w\<lparr>etl_errors := etl_errors w @ [FailedToParseEvent ''job_progress'']\<rparr>
      | Some update \<Rightarrow> w\<lparr>testStore := updateJobStatus (upd_jobId update) update (testStore w)\<rparr>)"

definition on_job_completed ::
  "(string \<Rightarrow> JobUpdate option) \<Rightarrow> string \<Rightarrow> 't etl_world \<Rightarrow> 't etl_world" where
  "on_job_completed JSON_parse data w =
     (case JSON_parse data of
        None \<Rightarrow> w\<lparr>etl_errors := etl_errors w @ [FailedToParseEvent ''job_completed'']\<rparr>
      | Some update \<Rightarrow>
          w\<lparr>testStore :=
              updateJobStatus (upd_jobId update)
                (update\<lparr>upd_status := Some Completed, upd_progress := Some 100\<rparr>) (testStore w)\<rparr>)"

definition on_job_failed ::
  "(string \<Rightarrow> JobUpdate option) \<Rightarrow> string \<Rightarrow> 't etl_world \<Rightarrow> 't etl_world" where
  "on_job_failed JSON_parse data w =
     (case JSON_parse data of
        None \<Rightarrow> w\<lparr>etl_errors := etl_errors w @ [FailedToParseEvent ''job_failed'']\<rparr>
      | Some update \<Rightarrow>
          w\<lparr>testStore :=
              updateJobStatus (upd_jobId update) (update\<lparr>upd_status := Some Failed\<rparr>) (testStore w)\<rparr>)"

definition on_job_cancelled ::
  "(string \<Rightarrow> JobUpdate option) \<Rightarrow> string \<Rightarrow> 't etl_world \<Rightarrow> 't etl_world" where
  "on_job_cancelled JSON_parse data w =
     (case JSON_parse data of
        None \<Rightarrow> w\<lparr>etl_errors := etl_errors w @ [FailedToParseEvent ''job_cancelled'']\<rparr>
      | Some update \<Rightarrow>
          w\<lparr>testStore :=
              updateJobStatus (upd_jobId update) (update\<lparr>upd_status := Some Cancelled\<rparr>) (testStore w)\<rparr>)"

section \<open>The chat store\<close>

text \<open>
  Modelled from the spec: the declarations of \<^verbatim>\<open>Message\<close>, \<^verbatim>\<open>Conversation\<close> and
  \<^verbatim>\<open>ChatRequest\<close> (module \<^verbatim>\<open>types\<close>) are not among the sources; section 3 of the
  specification lists their fields, and \<^verbatim>\<open>createMessage\<close> and \<^verbatim>\<open>createConversation\<close>
  build values of these shapes.
\<close>

datatype Role = User | Assistant

record Message =
  msg_id :: string
  msg_content :: string
  msg_role :: Role
  msg_timestamp :: string
  msg_isStreaming :: bool
  msg_feedback :: "json option"
  msg_metadata :: "json option"

record Conversation =
  conv_id :: string
  messages :: "Message list"
  conv_createdAt :: string
  conv_updatedAt :: string

record ChatRequest =
  message :: string
  conversation_id :: "string option"

text \<open>The state fields of \<^verbatim>\<open>ChatState\<close>. \<open>sseClient\<close> tells whether the store holds a
  client (the client itself is the \<open>client\<close> of the world).\<close>

record ChatState =
  conversations :: "Conversation list"
  currentConversationId :: "string option"
  currentConversation :: "Conversation option"
  isStreaming :: bool
  isLoading :: bool
  error :: "string option"
  streamingMessage :: "Message option"
  connectionStatus :: ConnectionStatus
  sseClient :: bool

text \<open>
  What the store's closures see besides the store: the local variables
  \<^verbatim>\<open>accumulatedContent\<close> and \<^verbatim>\<open>finalMetadata\<close> of \<^verbatim>\<open>streamChatResponse\<close>, the lines of
  \<^verbatim>\<open>console.error\<close>, and how often \<^verbatim>\<open>uuidv4()\<close> and the clock have been read. The values
  read are inputs: \<open>uuidv4 E n\<close> is the \<open>n\<close>-th identifier, \<open>toISOString E n\<close> the \<open>n\<close>-th
  reading of \<^verbatim>\<open>new Date().toISOString()\<close>. The clock is read once in each store update
  that writes a time stamp, and every time stamp of that update carries the reading.
\<close>

record environment =
  uuidv4 :: "nat \<Rightarrow> string"
  toISOString :: "nat \<Rightarrow> string"

record ChatWorld =
  store :: ChatState
  accumulatedContent :: string
  finalMetadata :: "json option"
  console_errors :: "js_error list"
  uuidCalls :: nat
  clockReads :: nat

definition set_state :: "(ChatState \<Rightarrow> ChatState) \<Rightarrow> ChatWorld \<Rightarrow> ChatWorld" where
  "set_state f a = a\<lparr>store := f (store a)\<rparr>"

definition now :: "environment \<Rightarrow> ChatWorld \<Rightarrow> string" where
  "now E a = toISOString E (clockReads a)"

definition tick :: "ChatWorld \<Rightarrow> ChatWorld" where
  "tick a = a\<lparr>clockReads := Suc (clockReads a)\<rparr>"

text \<open>Truthiness of a \<^verbatim>\<open>string | null\<close>.\<close>

definition truthy :: "string option \<Rightarrow> bool" where
  "truthy s \<longleftrightarrow> s \<noteq> None \<and> s \<noteq> Some []"

text \<open>\<^verbatim>\<open>error.message || fallback\<close>. No \<^verbatim>\<open>AbortError\<close> reaches the store: the client
  swallows it.\<close>

definition message_or :: "js_error \<Rightarrow> string \<Rightarrow> string" where
  "message_or e fallback =
     (case e of Error m \<Rightarrow> (if m = [] then fallback else m) | AbortError \<Rightarrow> fallback)"

definition createMessage ::
  "environment \<Rightarrow> string \<Rightarrow> Role \<Rightarrow> bool \<Rightarrow> ChatWorld \<Rightarrow> Message \<times> ChatWorld" where
  "createMessage E content role streaming a =
     (\<lparr> msg_id = uuidv4 E (uuidCalls a), msg_content = content, msg_role = role,
        msg_timestamp = now E a, msg_isStreaming = streaming,
        msg_feedback = None, msg_metadata = None \<rparr>,
      tick (a\<lparr>uuidCalls := Suc (uuidCalls a)\<rparr>))"

definition createConversation ::
  "environment \<Rightarrow> Message option \<Rightarrow> ChatWorld \<Rightarrow> Conversation \<times> ChatWorld" where
  "createConversation E initialMessage a =
     (\<lparr> conv_id = uuidv4 E (uuidCalls a),
        messages = (case initialMessage of None \<Rightarrow> [] | Some m \<Rightarrow> [m]),
        conv_createdAt = now E a, conv_updatedAt = now E a \<rparr>,
      tick (a\<lparr>uuidCalls := Suc (uuidCalls a)\<rparr>))"

text \<open>
  \<^verbatim>\<open>addMessageToConversation\<close>. When the identifier is the current one while
  \<^verbatim>\<open>currentConversation\<close> is \<^verbatim>\<open>null\<close>, reading \<^verbatim>\<open>state.currentConversation!.messages\<close>
  throws a \<^verbatim>\<open>TypeError\<close>.
\<close>

definition addMessageToConversation ::
  "environment \<Rightarrow> string option \<Rightarrow> Message \<Rightarrow> ChatWorld \<Rightarrow> js_error + ChatWorld" where
  "addMessageToConversation E conversationId msg a =
     (let state = store a;
          conversations' =
            map (\<lambda>c. if Some (conv_id c) = conversationId
                      then c\<lparr>messages := messages c @ [msg], conv_updatedAt := now E a\<rparr> else c)
              (conversations state)
      in if currentConversationId state = conversationId then
           (case currentConversation state of
              None \<Rightarrow> Inl (Error ''TypeError: Cannot read properties of null'')
            | Some cc \<Rightarrow>
                Inr (tick (set_state (\<lambda>s. s\<lparr>conversations := conversations',
                       currentConversation :=
                         Some (cc\<lparr>messages := messages cc @ [msg], conv_updatedAt := now E a\<rparr>)\<rparr>) a)))
         else Inr (tick (set_state (\<lambda>s. s\<lparr>conversations := conversations'\<rparr>) a)))"

text \<open>\<^verbatim>\<open>updateStreamingMessage\<close>.\<close>

definition updateStreamingMessage :: "environment \<Rightarrow> string \<Rightarrow> ChatWorld \<Rightarrow> ChatWorld" where
  "updateStreamingMessage E content a =
     (let state = store a in
      case streamingMessage state of
        None \<Rightarrow> a
      | Some sm \<Rightarrow>
          if \<not> truthy (currentConversationId state) then a
          else
            (let updatedMessage = sm\<lparr>msg_content := content\<rparr>;
                 replaced = map (\<lambda>m. if msg_id m = msg_id sm then updatedMessage else m)
             in tick (set_state (\<lambda>s. s\<lparr>
                  streamingMessage := Some updatedMessage,
                  conversations :=
                    map (\<lambda>c. if Some (conv_id c) = currentConversationId s
                              then c\<lparr>messages := replaced (messages c), conv_updatedAt := now E a\<rparr>
                              else c)
                      (conversations s),
                  currentConversation :=
                    (case currentConversation s of
                       None \<Rightarrow> None
                     | Some cc \<Rightarrow>
                         Some (cc\<lparr>messages := replaced (messages cc), conv_updatedAt := now E a\<rparr>))\<rparr>) a)))"

text \<open>\<^verbatim>\<open>completeStreamingMessage\<close>.\<close>

definition completeStreamingMessage ::
  "environment \<Rightarrow> string \<Rightarrow> json option \<Rightarrow> ChatWorld \<Rightarrow> ChatWorld" where
  "completeStreamingMessage E finalContent metadata a =
     (let state = store a in
      case streamingMessage state of
        None \<Rightarrow> a
      | Some sm \<Rightarrow>
          if \<not> truthy (currentConversationId state) then a
          else
            (let completedMessage =
                   sm\<lparr>msg_content := finalContent, msg_isStreaming := False, msg_metadata := metadata\<rparr>;
                 replaced = map (\<lambda>m. if msg_id m = msg_id sm then completedMessage else m)
             in tick (set_state (\<lambda>s. s\<lparr>
                  streamingMessage := None,
                  conversations :=
                    map (\<lambda>c. if Some (conv_id c) = currentConversationId s
                              then c\<lparr>messages := replaced (messages c), conv_updatedAt := now E a\<rparr>
                              else c)
                      (conversations s),
                  currentConversation :=
                    (case currentConversation s of
                       None \<Rightarrow> None
                     | Some cc \<Rightarrow>
                         Some (cc\<lparr>messages := replaced (messages cc), conv_updatedAt := now E a\<rparr>))\<rparr>) a)))"

text \<open>The callbacks that \<^verbatim>\<open>streamChatResponse\<close> gives the client.\<close>

definition chat_onMessage ::
  "environment \<Rightarrow> StreamingChatResponse \<Rightarrow> ChatWorld \<Rightarrow> js_error + ChatWorld" where
  "chat_onMessage E data a =
     (if resp_type data = Chunk then
        (let acc = accumulatedContent a @ resp_content data
         in Inr (updateStreamingMessage E acc (a\<lparr>accumulatedContent := acc\<rparr>)))
      else if resp_type data = Complete then
        Inr (a\<lparr>finalMetadata := resp_metadata data,
               accumulatedContent :=
                 (if resp_content data \<noteq> [] then resp_content data else accumulatedContent a)\<rparr>)
      else Inl (Error (resp_content data)))"

definition chat_onComplete :: "environment \<Rightarrow> ChatWorld \<Rightarrow> ChatWorld" where
  "chat_onComplete E a =
     set_state (\<lambda>s. s\<lparr>isStreaming := False, streamingMessage := None, sseClient := False\<rparr>)
       (completeStreamingMessage E (accumulatedContent a) (finalMetadata a) a)"

definition chat_onError :: "environment \<Rightarrow> js_error \<Rightarrow> ChatWorld \<Rightarrow> ChatWorld" where
  "chat_onError E err a =
     (let a0 = a\<lparr>console_errors := console_errors a @ [err]\<rparr>;
          errorMessage = message_or err ''Streaming failed'';
          a1 = set_state (\<lambda>s. s\<lparr>isStreaming := False, streamingMessage := None,
                 error := Some errorMessage, connectionStatus := ConnError, sseClient := False\<rparr>) a0;
          state = store a1
      in case streamingMessage state of
           None \<Rightarrow> a1
         | Some sm \<Rightarrow>
             if \<not> truthy (currentConversationId state) then a1
             else
               (case find (\<lambda>c. Some (conv_id c) = currentConversationId state) (conversations state) of
                  None \<Rightarrow> a1
                | Some conversation \<Rightarrow>
                    (let updatedMessages = filter (\<lambda>m. msg_id m \<noteq> msg_id sm) (messages conversation)
                     in tick (set_state (\<lambda>s. s\<lparr>
                          conversations :=
                            map (\<lambda>c. if Some (conv_id c) = currentConversationId s
                                      then c\<lparr>messages := updatedMessages, conv_updatedAt := now E a1\<rparr>
                                      else c)
                              (conversations s),
                          currentConversation :=
                            (if currentConversationId s = Some (conv_id conversation)
                             then Some (conversation\<lparr>messages := updatedMessages\<rparr>)
                             else currentConversation s)\<rparr>) a1))))"

definition chatOptions :: "environment \<Rightarrow> ChatWorld SSEClientOptions" where
  "chatOptions E =
     \<lparr> onMessage = chat_onMessage E,
       onError = chat_onError E,
       onComplete = chat_onComplete E,
       onConnectionChange = (\<lambda>status. set_state (\<lambda>s. s\<lparr>connectionStatus := status\<rparr>)),
       retryAttempts = Some 3,
       retryDelay = Some 1000 \<rparr>"

text \<open>
  \<^verbatim>\<open>streamChatResponse\<close>. The token lookup only fills the request headers. A client the
  store still holds is disconnected first; its callbacks are the same closures.
\<close>

definition streamChatResponse ::
  "(string \<Rightarrow> StreamingChatResponse option) \<Rightarrow> environment \<Rightarrow> (nat \<Rightarrow> fetch_result \<times> bool) \<Rightarrow>
   ChatRequest \<Rightarrow> ChatWorld world \<Rightarrow> (js_error + unit) \<times> ChatWorld world"
where
  "streamChatResponse JSON_parse E net chatRequest w =
     (let state = store (app w);
          w1 = (if sseClient state then disconnect (chatOptions E) w else w);
          (streamingMsg, a2) = createMessage E [] Assistant True (app w1);
          conversationId =
            (if truthy (conversation_id chatRequest) then conversation_id chatRequest
             else currentConversationId state);
          placed =
            (if truthy conversationId then
               (case addMessageToConversation E conversationId streamingMsg a2 of
                  Inl e \<Rightarrow> Inl e
                | Inr a3 \<Rightarrow> Inr (set_state (\<lambda>s. s\<lparr>streamingMessage := Some streamingMsg\<rparr>) a3))
             else Inr a2)
      in case placed of
           Inl e \<Rightarrow> (Inl e, w1\<lparr>app := a2\<rparr>)
         | Inr a4 \<Rightarrow>
             connect JSON_parse (chatOptions E) net
               (w1\<lparr>client := SSEClient_new (chatOptions E),
                   app := set_state (\<lambda>s. s\<lparr>sseClient := True\<rparr>)
                            (a4\<lparr>accumulatedContent := [], finalMetadata := None\<rparr>)\<rparr>))"

text \<open>\<^verbatim>\<open>sendMessage\<close>: the two guards, then the \<^verbatim>\<open>try\<close> block, then the \<^verbatim>\<open>catch\<close> block.\<close>

definition sendMessage_try ::
  "(string \<Rightarrow> StreamingChatResponse option) \<Rightarrow> environment \<Rightarrow> (nat \<Rightarrow> fetch_result \<times> bool) \<Rightarrow>
   string \<Rightarrow> ChatState \<Rightarrow> ChatWorld world \<Rightarrow> (js_error + unit) \<times> ChatWorld world"
where
  "sendMessage_try JSON_parse E net messageContent state w =
     (let (userMessage, a1) = createMessage E messageContent User False (app w);
          placed =
            (case currentConversation state of
               None \<Rightarrow>
                 (let (conversation, a2) = createConversation E (Some userMessage) a1
                  in Inr (Some (conv_id conversation),
                          set_state (\<lambda>s. s\<lparr>conversations := conversations s @ [conversation],
                            currentConversation := Some conversation,
                            currentConversationId := Some (conv_id conversation)\<rparr>) a2))
             | Some conversation \<Rightarrow>
                 (case addMessageToConversation E (currentConversationId state) userMessage a1 of
                    Inl e \<Rightarrow> Inl e
                  | Inr a2 \<Rightarrow> Inr (currentConversationId state, a2)))
      in case placed of
           Inl e \<Rightarrow> (Inl e, w\<lparr>app := a1\<rparr>)
         | Inr (conversationId, a3) \<Rightarrow>
             streamChatResponse JSON_parse E net
               \<lparr> message = messageContent,
                 conversation_id = (if truthy conversationId then conversationId else None) \<rparr>
               (w\<lparr>app := set_state (\<lambda>s. s\<lparr>isLoading := False, isStreaming := True,
                                          connectionStatus := Connecting\<rparr>) a3\<rparr>))"

definition sendMessage ::
  "(string \<Rightarrow> StreamingChatResponse option) \<Rightarrow> environment \<Rightarrow> (nat \<Rightarrow> fetch_result \<times> bool) \<Rightarrow>
   string \<Rightarrow> ChatWorld world \<Rightarrow> (js_error + unit) \<times> ChatWorld world"
where
  "sendMessage JSON_parse E net messageContent w =
     (let state = store (app w) in
      if isStreaming state then (Inl (Error ''Cannot send message while streaming''), w)
      else if trim messageContent = [] then (Inl (Error ''Message cannot be empty''), w)
      else
        (case sendMessage_try JSON_parse E net messageContent state
                (callback (set_state (\<lambda>s. s\<lparr>isLoading := True, error := None\<rparr>)) w) of
           (Inr u, w') \<Rightarrow> (Inr (), w')
         | (Inl err, w') \<Rightarrow>
             (Inl err,
              callback (set_state (\<lambda>s. s\<lparr>isLoading := False, isStreaming := False,
                          error := Some (message_or err ''Failed to send message''),
                          connectionStatus := ConnError\<rparr>)) w')))"

text \<open>\<^verbatim>\<open>stopStreaming\<close>.\<close>

definition stopStreaming :: "environment \<Rightarrow> ChatWorld world \<Rightarrow> ChatWorld world" where
  "stopStreaming E w =
     callback (set_state (\<lambda>s. s\<lparr>isStreaming := False, streamingMessage := None,
                 connectionStatus := Disconnected, sseClient := False\<rparr>))
       (if sseClient (store (app w)) then disconnect (chatOptions E) w else w)"

section \<open>Transport outcomes and example inputs\<close>

text \<open>
  An attempt fails when \<^verbatim>\<open>fetch\<close> rejects, the response is not \<^verbatim>\<open>ok\<close> or has no body, or
  a read rejects, in each case with an error other than \<^verbatim>\<open>AbortError\<close>;
  \<open>failure_error\<close> is the error the \<^verbatim>\<open>catch\<close> block then receives. A transport failure
  is a failed attempt with no \<^verbatim>\<open>disconnect()\<close> during the delay that follows.
  \<open>budget\<close> is \<^verbatim>\<open>this.options.retryAttempts || 3\<close>, and \<open>fetches\<close> counts the requests
  issued so far.
\<close>

fun is_failure :: "fetch_result \<Rightarrow> bool" where
  "is_failure (FetchRejects msg) = True"
| "is_failure FetchAborted = False"
| "is_failure (NotOk st txt) = True"
| "is_failure NoBody = True"
| "is_failure (Body chunks EndOfStream) = False"
| "is_failure (Body chunks (ReadFails msg)) = True"
| "is_failure (Body chunks ReadAborted) = False"

fun failure_error :: "fetch_result \<Rightarrow> js_error" where
  "failure_error (FetchRejects msg) = Error msg"
| "failure_error (NotOk st txt) = Error (''HTTP '' @ st @ '': '' @ txt)"
| "failure_error NoBody = Error ''Response body is not available for streaming''"
| "failure_error (Body chunks (ReadFails msg)) = Error msg"
| "failure_error r = AbortError"

definition transport_failure :: "fetch_result \<times> bool \<Rightarrow> bool" where
  "transport_failure r \<longleftrightarrow> is_failure (fst r) \<and> snd r = False"

definition budget :: "'w world \<Rightarrow> int" where
  "budget w = js_or (options_retryAttempts (client w)) 3"

definition fetches :: "'w world \<Rightarrow> nat" where
  "fetches w = count_list (effects w) Fetch"

text \<open>
  Example inputs. The three parsers give \<^verbatim>\<open>JSON.parse\<close> on the payloads the examples
  use, typed as the listener at hand reads the result; every other text the examples
  feed them is not JSON.
\<close>

definition example_parse :: "string \<Rightarrow> StreamingChatResponse option" where
  \<open>example_parse s =
     (if s = ''{"type":"chunk","content":"Hel"}'' then
        Some \<lparr>resp_type = Chunk, resp_content = ''Hel'', resp_metadata = None\<rparr>
      else if s = ''{"type":"chunk","content":"lo"}'' then
        Some \<lparr>resp_type = Chunk, resp_content = ''lo'', resp_metadata = None\<rparr>
      else if s = ''{"type":"error","content":"boom"}'' then
        Some \<lparr>resp_type = ErrorFragment, resp_content = ''boom'', resp_metadata = None\<rparr>
      else None)\<close>

definition example_parse_update :: "string \<Rightarrow> JobUpdate option" where
  \<open>example_parse_update s =
     (if s = ''{"jobId":"b","progress":10}'' then
        Some \<lparr>upd_jobId = Some ''b'', upd_status = None, upd_progress = Some 10,
              upd_currentStep = None, upd_errorMessage = None, upd_estimatedCompletion = None,
              upd_createdAt = None, upd_updatedAt = None\<rparr>
      else None)\<close>

definition example_parse_message :: "string \<Rightarrow> JobMessage option" where
  \<open>example_parse_message s =
     (if s = ''{"type":"job_removed","jobId":"a"}'' then
        Some \<lparr>message_type = ''job_removed'', message_job = None, message_jobId = Some ''a''\<rparr>
      else None)\<close>

definition example_environment :: environment where
  "example_environment =
     \<lparr> uuidv4 = (\<lambda>n. if n = 0 then ''id-0'' else if n = 1 then ''id-1'' else ''id-2''),
       toISOString = (\<lambda>n. ''2024-01-01T00:00:00Z'') \<rparr>"

definition initial_ChatState :: ChatState where
  "initial_ChatState =
     \<lparr> conversations = [], currentConversationId = None, currentConversation = None,
       isStreaming = False, isLoading = False, error = None, streamingMessage = None,
       connectionStatus = Disconnected, sseClient = False \<rparr>"

definition initial_world :: "ChatWorld world" where
  "initial_world =
     \<lparr> client = SSEClient_new (chatOptions example_environment), effects = [],
       app = \<lparr> store = initial_ChatState, accumulatedContent = [], finalMetadata = None,
               console_errors = [], uuidCalls = 0, clockReads = 0 \<rparr> \<rparr>"

definition initial_etl_world :: "unit etl_world" where
  "initial_etl_world =
     \<lparr> testStore = \<lparr> tests = [], currentTest = None, isLoadingTests = False, testsError = None,
           processingJobs = [], isLoadingJobs = False, jobsError = None,
           selectedTestId = None, filterStatus = FilterAll \<rparr>,
       etl_errors = [] \<rparr>"

definition example_job :: ProcessingJob where
  "example_job =
     \<lparr> jobId = ''a'', status = Running, progress = 50, currentStep = ''Processing'',
       errorMessage = None, estimatedCompletion = None,
       job_createdAt = ''2024-01-01T00:00:00Z'', job_updatedAt = ''2024-01-01T00:30:00Z'' \<rparr>"

section \<open>Lines, fragments and the placeholder message\<close>

text \<open>
  The vocabulary of the statements about a chat stream. \<open>complete_lines\<close> are the lines
  of the text received so far that a line feed has ended. \<open>data_payload\<close> is the payload
  \<^verbatim>\<open>processLine\<close> hands to \<^verbatim>\<open>JSON.parse\<close>: that of a \<^verbatim>\<open>data:\<close> line other than the
  \<^verbatim>\<open>[DONE]\<close> sentinel; \<open>fragment_of\<close> is the fragment decoded from it, and \<open>chunk_text\<close>
  the contents of the \<^verbatim>\<open>chunk\<close> fragments of some lines, in order. A line carries
  \<open>no_completion\<close> when it is neither the sentinel nor a \<^verbatim>\<open>complete\<close> fragment.
  \<open>current_messages\<close> are the messages of the conversation with the current
  identifier in \<open>conversations\<close>, \<open>shown_messages\<close> those of \<open>currentConversation\<close>, and
  \<open>replace_message m'\<close> puts \<open>m'\<close> in the place of each message with its identifier.
  \<open>streaming\<close> is what holds between two fragments of a stream whose placeholder has
  become \<open>m'\<close>.
\<close>

definition complete_lines :: "string list \<Rightarrow> string list" where
  "complete_lines chunks = butlast (split_nl (concat chunks))"

definition is_done_line :: "string \<Rightarrow> bool" where
  "is_done_line line \<longleftrightarrow> trim line = ''data: [DONE]''"

definition data_payload :: "string \<Rightarrow> string option" where
  "data_payload line =
     (if startsWith (trim line) ''data: '' \<and> drop 6 (trim line) \<noteq> ''[DONE]''
      then Some (drop 6 (trim line)) else None)"

definition fragment_of :: "(string \<Rightarrow> StreamingChatResponse option) \<Rightarrow> string \<Rightarrow> StreamingChatResponse option" where
  "fragment_of JSON_parse line =
     (case data_payload line of None \<Rightarrow> None | Some data \<Rightarrow> JSON_parse data)"

definition chunk_text :: "(string \<Rightarrow> StreamingChatResponse option) \<Rightarrow> string list \<Rightarrow> string" where
  "chunk_text JSON_parse lines =
     concat (map resp_content
       (filter (\<lambda>d. resp_type d = Chunk) (List.map_filter (fragment_of JSON_parse) lines)))"

definition no_completion :: "(string \<Rightarrow> StreamingChatResponse option) \<Rightarrow> string \<Rightarrow> bool" where
  "no_completion JSON_parse line \<longleftrightarrow>
     \<not> is_done_line line \<and>
     (case fragment_of JSON_parse line of None \<Rightarrow> True | Some d \<Rightarrow> resp_type d \<noteq> Complete)"

definition current_messages :: "ChatState \<Rightarrow> Message list" where
  "current_messages s =
     concat (map messages
       (filter (\<lambda>c. Some (conv_id c) = currentConversationId s) (conversations s)))"

definition replace_message :: "Message \<Rightarrow> Message list \<Rightarrow> Message list" where
  "replace_message m' = map (\<lambda>x. if msg_id x = msg_id m' then m' else x)"

definition shown_messages :: "ChatState \<Rightarrow> Message list" where
  "shown_messages s = (case currentConversation s of None \<Rightarrow> [] | Some cc \<Rightarrow> messages cc)"

definition streaming :: "Message list \<Rightarrow> Message list \<Rightarrow> string option \<Rightarrow> Message \<Rightarrow> ChatWorld \<Rightarrow> bool" where
  "streaming msgs0 shown0 cid m' a \<longleftrightarrow>
     streamingMessage (store a) = Some m' \<and>
     accumulatedContent a = msg_content m' \<and>
     currentConversationId (store a) = cid \<and>
     current_messages (store a) = replace_message m' msgs0 \<and>
     shown_messages (store a) = replace_message m' shown0"

text \<open>The chat store in the middle of a turn, as \<^verbatim>\<open>sendMessage('hi')\<close> on the initial store
  has set it up once the response has arrived, and two example bodies.\<close>

definition example_user_message :: Message where
  "example_user_message =
     \<lparr> msg_id = ''id-0'', msg_content = ''hi'', msg_role = User,
       msg_timestamp = ''2024-01-01T00:00:00Z'', msg_isStreaming = False,
       msg_feedback = None, msg_metadata = None \<rparr>"

definition example_placeholder :: Message where
  "example_placeholder =
     \<lparr> msg_id = ''id-2'', msg_content = [], msg_role = Assistant,
       msg_timestamp = ''2024-01-01T00:00:00Z'', msg_isStreaming = True,
       msg_feedback = None, msg_metadata = None \<rparr>"

definition example_conversation :: Conversation where
  "example_conversation =
     \<lparr> conv_id = ''id-1'', messages = [example_user_message, example_placeholder],
       conv_createdAt = ''2024-01-01T00:00:00Z'', conv_updatedAt = ''2024-01-01T00:00:00Z'' \<rparr>"

definition streaming_world :: "ChatWorld world" where
  "streaming_world =
     \<lparr> client = \<lparr> abortController = Some False, retryCount = 0, isConnected = True,
                  options_retryAttempts = 3, options_retryDelay = 1000 \<rparr>,
       effects = [Fetch],
       app = \<lparr> store = \<lparr> conversations = [example_conversation],
                         currentConversationId = Some ''id-1'',
                         currentConversation = Some example_conversation,
                         isStreaming = True, isLoading = False, error = None,
                         streamingMessage = Some example_placeholder,
                         connectionStatus = Connected, sseClient = True \<rparr>,
               accumulatedContent = [], finalMetadata = None, console_errors = [],
               uuidCalls = 3, clockReads = 4 \<rparr> \<rparr>"

definition example_chunks :: "string list" where
  \<open>example_chunks =
     [''data: {"type":"chunk","content":"Hel"}\<newline>da'',
      ''ta: {"type":"chunk","content":"lo"}\<newline>'']\<close>

definition example_chunks_with_error :: "string list" where
  \<open>example_chunks_with_error =
     [''data: {"type":"chunk","content":"Hel"}\<newline>da'',
      ''ta: {"type":"error","content":"boom"}\<newline>'',
      ''data: {"type":"chunk","content":"lo"}\<newline>'']\<close>

section \<open>The line parser and chunk boundaries\<close>

text \<open>
  \<^verbatim>\<open>split\<close> distributes over concatenation: the complete lines of \<open>x @ y\<close> are those
  of \<open>x\<close>, then the lines of what \<open>x\<close> left unfinished followed by \<open>y\<close>.
\<close>

lemma split_nl_nonempty [simp]: "split_nl s \<noteq> []"
  by (induction s) (simp_all split: list.splits)

lemma split_nl_Cons:
  "split_nl (c # cs) =
     (if c = CHR 0x0A then [] # split_nl cs else (c # hd (split_nl cs)) # tl (split_nl cs))"
  by (cases "split_nl cs") simp_all

lemma pop_or_empty_split [simp]: "pop_or_empty (split_nl s) = last (split_nl s)"
  by (simp add: pop_or_empty_def)

lemma split_nl_no_newline:
  "CHR 0x0A \<notin> set b \<Longrightarrow> split_nl (b @ c) = (b @ hd (split_nl c)) # tl (split_nl c)"
  by (induction b) (auto simp add: split_nl_Cons simp del: split_nl.simps(2))

lemma last_split_nl_no_newline [simp]: "CHR 0x0A \<notin> set (last (split_nl s))"
proof (induction s)
  case Nil
  show ?case by simp
next
  case (Cons c cs)
  show ?case
  proof (cases "tl (split_nl cs) = []")
    case True
    then have "split_nl cs = [hd (split_nl cs)]"
      by (metis list.collapse split_nl_nonempty)
    then have "last (split_nl cs) = hd (split_nl cs)"
      by (metis last.simps)
    with Cons True show ?thesis by (auto simp add: split_nl_Cons simp del: split_nl.simps(2))
  next
    case False
    then have "last (split_nl cs) = last (tl (split_nl cs))"
      by (metis last_tl split_nl_nonempty)
    with Cons False show ?thesis by (auto simp add: split_nl_Cons simp del: split_nl.simps(2))
  qed
qed

lemma split_nl_append:
  "split_nl (x @ y) = butlast (split_nl x) @ split_nl (last (split_nl x) @ y)"
proof (induction x)
  case Nil
  show ?case by simp
next
  case (Cons c cs)
  show ?case
  proof (cases "c = CHR 0x0A")
    case True
    with Cons show ?thesis by (simp add: split_nl_Cons del: split_nl.simps(2))
  next
    case False
    show ?thesis
    proof (cases "tl (split_nl cs) = []")
      case True
      then have one: "split_nl cs = [hd (split_nl cs)]"
        by (metis list.collapse split_nl_nonempty)
      then have l: "last (split_nl cs) = hd (split_nl cs)" and b: "butlast (split_nl cs) = []"
        by (metis last.simps, metis butlast.simps(2))
      have nn: "CHR 0x0A \<notin> set (hd (split_nl cs))"
        using last_split_nl_no_newline [of cs] l by simp
      have "split_nl (cs @ y) = split_nl (hd (split_nl cs) @ y)"
        using Cons l b by simp
      then show ?thesis
        using False True l nn by (simp add: split_nl_no_newline split_nl_Cons del: split_nl.simps(2))
    next
      case tl: False
      then have l: "last (split_nl cs) = last (tl (split_nl cs))"
        by (metis last_tl split_nl_nonempty)
      have bl: "butlast (split_nl cs) = hd (split_nl cs) # butlast (tl (split_nl cs))"
        using tl by (metis butlast.simps(2) list.collapse split_nl_nonempty)
      show ?thesis
        using False tl Cons l bl by (simp add: split_nl_Cons del: split_nl.simps(2))
    qed
  qed
qed

lemma processChunks_lines:
  "CHR 0x0A \<notin> set b \<Longrightarrow>
   processChunks P opts cs b w =
     (last (split_nl (b @ concat cs)),
      foldl (\<lambda>w line. processLine P opts line w) w (butlast (split_nl (b @ concat cs))))"
proof (induction cs arbitrary: b w)
  case Nil
  then show ?case by (simp add: split_nl_no_newline [of b "[]", simplified])
next
  case (Cons c cs)
  have "split_nl ((b @ c) @ concat cs)
      = butlast (split_nl (b @ c)) @ split_nl (last (split_nl (b @ c)) @ concat cs)"
    by (rule split_nl_append)
  then show ?case
    using Cons.IH [of "last (split_nl (b @ c))"]
    by (simp add: Let_def butlast_append)
qed

text \<open>
  Claim C5. Parsing is invariant under chunk boundaries: however a protocol text is cut
  into chunks (also in the middle of a line), the loop of \<^verbatim>\<open>processStream\<close> leaves the
  same carried buffer and the same world (the same callbacks called in the same order
  on the owner's state, the same console lines, the same retry delay) as when the
  whole text arrives as one chunk; so does \<^verbatim>\<open>processStream\<close> itself, for every way
  the stream ends.
\<close>

theorem chunk_boundaries_invariant:
  "processChunks JSON_parse opts chunks [] w
     = processChunks JSON_parse opts [concat chunks] [] w \<and>
   processStream JSON_parse opts chunks end w
     = processStream JSON_parse opts [concat chunks] end w"
  by (simp add: processChunks_lines processStream_def Let_def)

section \<open>Malformed payloads\<close>

lemma startsWith_data_not_comment:
  "startsWith t ''data: '' \<Longrightarrow> t \<noteq> [] \<and> \<not> startsWith t '':''"
  by (cases t) (auto simp: startsWith_def)

text \<open>
  Claim C8. A \<^verbatim>\<open>data:\<close> line whose payload fails \<^verbatim>\<open>JSON.parse\<close> (and is not the
  \<^verbatim>\<open>[DONE]\<close> sentinel) does not throw out of \<^verbatim>\<open>processLine\<close>, calls no callback and so
  leaves the owner's state and the client as they were, and records one console
  warning carrying the raw payload. The same holds for the job stream: a message whose
  data fails \<^verbatim>\<open>JSON.parse\<close> leaves the job store as it was and records one console error.
\<close>

theorem malformed_payload_dropped:
  assumes "startsWith (trim line) ''data: ''"
    and "drop 6 (trim line) \<noteq> ''[DONE]''"
    and "JSON_parse (drop 6 (trim line)) = None"
    and "JSON_parse_job data = None"
  shows "app (processLine JSON_parse opts line w) = app w \<and>
         client (processLine JSON_parse opts line w) = client w \<and>
         effects (processLine JSON_parse opts line w)
           = effects w @ [WarnParseFailed (drop 6 (trim line))] \<and>
         testStore (eventSource_onmessage JSON_parse_job data jw) = testStore jw \<and>
         etl_errors (eventSource_onmessage JSON_parse_job data jw)
           = etl_errors jw @ [FailedToParseUpdate]"
  using assms startsWith_data_not_comment [OF assms(1)]
  by (simp add: processLine_def Let_def eventSource_onmessage_def)

lemma trim_not_json: "trim ''data: not-json'' = ''data: not-json''"
  by (simp add: trim_def js_whitespace_def)

text \<open>The line \<^verbatim>\<open>data: not-json\<close> of the specification, on the initial chat store and the
  initial job store.\<close>

theorem malformed_payload_dropped_witness:
  "app (processLine example_parse (chatOptions example_environment) ''data: not-json'' initial_world)
     = app initial_world \<and>
   effects (processLine example_parse (chatOptions example_environment) ''data: not-json'' initial_world)
     = [WarnParseFailed ''not-json''] \<and>
   testStore (eventSource_onmessage example_parse_message ''not-json'' initial_etl_world)
     = testStore initial_etl_world \<and>
   etl_errors (eventSource_onmessage example_parse_message ''not-json'' initial_etl_world)
     = [FailedToParseUpdate]"
  using malformed_payload_dropped [of "''data: not-json''" example_parse example_parse_message
      "''not-json''" "chatOptions example_environment" initial_world initial_etl_world]
  by (simp add: trim_not_json startsWith_def example_parse_def example_parse_message_def
      initial_world_def initial_etl_world_def)

section \<open>One chat stream at a time\<close>

text \<open>
  Claim C9. In every state in which \<open>isStreaming\<close> holds, \<^verbatim>\<open>sendMessage\<close> throws the error
  \<^verbatim>\<open>Cannot send message while streaming\<close> and changes nothing: conversations, current
  conversation, streaming message, the client and everything else stay as they were,
  and no request is issued.
\<close>

theorem sendMessage_rejected_while_streaming:
  assumes "isStreaming (store (app w))"
  shows "sendMessage JSON_parse E net messageContent w
           = (Inl (Error ''Cannot send message while streaming''), w)"
  using assms by (simp add: sendMessage_def)

text \<open>The initial store with \<open>isStreaming\<close> set.\<close>

theorem sendMessage_rejected_while_streaming_witness:
  "sendMessage example_parse example_environment (\<lambda>k. (NoBody, False)) ''hello''
     (callback (set_state (\<lambda>s. s\<lparr>isStreaming := True\<rparr>)) initial_world)
   = (Inl (Error ''Cannot send message while streaming''),
      callback (set_state (\<lambda>s. s\<lparr>isStreaming := True\<rparr>)) initial_world)"
  using sendMessage_rejected_while_streaming
    [of "callback (set_state (\<lambda>s. s\<lparr>isStreaming := True\<rparr>)) initial_world"
        example_parse example_environment "\<lambda>k. (NoBody, False)" "''hello''"]
  by (simp add: set_state_def)

section \<open>Reconnection\<close>

text \<open>
  Only \<^verbatim>\<open>attemptConnection\<close> issues requests. A failed attempt hands its error to the
  \<^verbatim>\<open>catch\<close> block, which retries while the counter is below the budget and gives up
  otherwise; unfolding \<^verbatim>\<open>attemptConnection\<close> once in each of the three situations gives
  the steps of the inductions below.
\<close>

lemma processLine_fetches [simp]: "fetches (processLine P opts l w) = fetches w"
  by (simp add: processLine_def fetches_def Let_def split: option.splits sum.splits)

lemma processLines_fetches [simp]:
  "fetches (foldl (\<lambda>w l. processLine P opts l w) w ls) = fetches w"
  by (induction ls arbitrary: w) simp_all

lemma processChunks_fetches [simp]: "fetches (snd (processChunks P opts cs b w)) = fetches w"
  by (induction cs arbitrary: b w) (simp_all add: Let_def)

lemma fetches_simps [simp]:
  "fetches (callback f w) = fetches w"
  "fetches (w\<lparr>client := c\<rparr>) = fetches w"
  "fetches (log Fetch w) = Suc (fetches w)"
  "e \<noteq> Fetch \<Longrightarrow> fetches (log e w) = fetches w"
  "fetches (disconnect opts w) = fetches w"
  by (simp_all add: fetches_def callback_def log_def disconnect_def)

lemma try_failure:
  assumes "is_failure r"
  shows "fst (attemptConnection_try P opts r w) = Some (failure_error r)"
    and "failure_error r \<noteq> AbortError"
    and "abortController (client (snd (attemptConnection_try P opts r w))) = abortController (client w)"
    and "fetches (snd (attemptConnection_try P opts r w)) = Suc (fetches w)"
  using assms
  by (induction r rule: is_failure.induct)
     (simp_all add: attemptConnection_try_def processStream_def Let_def)

lemma try_success:
  "fst (attemptConnection_try P opts (Body chunks EndOfStream) w) = None"
  "abortController (client (snd (attemptConnection_try P opts (Body chunks EndOfStream) w)))
     = abortController (client w)"
  "fetches (snd (attemptConnection_try P opts (Body chunks EndOfStream) w)) = Suc (fetches w)"
  by (simp_all add: attemptConnection_try_def processStream_def Let_def)

lemma catch_retry:
  assumes "e \<noteq> AbortError" and "int (retryCount (client w)) < budget w"
    and "abortController (client w) = Some False"
  shows "fst (attemptConnection_catch opts e False w) = Retry"
    and "retryCount (client (snd (attemptConnection_catch opts e False w))) = Suc (retryCount (client w))"
    and "abortController (client (snd (attemptConnection_catch opts e False w))) = Some False"
    and "budget (snd (attemptConnection_catch opts e False w)) = budget w"
    and "fetches (snd (attemptConnection_catch opts e False w)) = fetches w"
  using assms by (simp_all add: attemptConnection_catch_def budget_def Let_def)

lemma catch_reject:
  assumes "e \<noteq> AbortError" and "\<not> int (retryCount (client w)) < budget w"
  shows "attemptConnection_catch opts e d w =
           (Reject e, callback (onError opts e) (callback (onConnectionChange opts ConnError)
              (w\<lparr>client := (client w)\<lparr>isConnected := False\<rparr>\<rparr>)))"
  using assms by (simp add: attemptConnection_catch_def budget_def Let_def)

lemma try_budget [simp]: "budget (snd (attemptConnection_try P opts r w)) = budget w"
  by (simp add: budget_def)

lemma attemptConnection_success_step:
  assumes "abortController (client w) = Some False" and "fst (net j) = Body chunks EndOfStream"
  shows "attemptConnection P opts net j w
           = (Inr (), snd (attemptConnection_try P opts (Body chunks EndOfStream) w))"
proof -
  obtain x w1 where t: "attemptConnection_try P opts (Body chunks EndOfStream) w = (x, w1)"
    by (cases "attemptConnection_try P opts (Body chunks EndOfStream) w")
  have "x = None" using try_success(1) [of P opts chunks w] t by simp
  then show ?thesis
    using assms t by (subst attemptConnection.simps) simp
qed

lemma attemptConnection_retry_step:
  assumes "abortController (client w) = Some False" and "transport_failure (net j)"
    and "int (retryCount (client w)) < budget w"
  shows "attemptConnection P opts net j w
           = attemptConnection P opts net (Suc j)
               (snd (attemptConnection_catch opts (failure_error (fst (net j))) False
                  (snd (attemptConnection_try P opts (fst (net j)) w))))"
proof -
  have f: "is_failure (fst (net j))" and d: "snd (net j) = False"
    using assms(2) by (simp_all add: transport_failure_def)
  obtain x w1 where t: "attemptConnection_try P opts (fst (net j)) w = (x, w1)"
    by (cases "attemptConnection_try P opts (fst (net j)) w")
  have x: "x = Some (failure_error (fst (net j)))"
    using try_failure(1) [OF f, of P opts w] t by simp
  have a1: "abortController (client w1) = Some False"
    using try_failure(3) [OF f, of P opts w] t assms(1) by simp
  have r1: "int (retryCount (client w1)) < budget w1"
    using attemptConnection_try_budget(1) [of P opts "fst (net j)" w]
      try_budget [of P opts "fst (net j)" w] t assms(3) by simp
  obtain y w2 where c: "attemptConnection_catch opts (failure_error (fst (net j))) False w1 = (y, w2)"
    by (cases "attemptConnection_catch opts (failure_error (fst (net j))) False w1")
  have y: "y = Retry"
    using catch_retry(1) [OF try_failure(2) [OF f] r1 a1, of opts] c by simp
  show ?thesis
    using assms(1) t x c y d by (subst attemptConnection.simps) simp
qed

lemma attemptConnection_giveup_step:
  assumes "abortController (client w) = Some False" and "transport_failure (net j)"
    and "\<not> int (retryCount (client w)) < budget w"
  shows "attemptConnection P opts net j w
           = (Inl (failure_error (fst (net j))),
              callback (onError opts (failure_error (fst (net j))))
                (callback (onConnectionChange opts ConnError)
                   ((snd (attemptConnection_try P opts (fst (net j)) w))
                      \<lparr>client := (client (snd (attemptConnection_try P opts (fst (net j)) w)))
                          \<lparr>isConnected := False\<rparr>\<rparr>)))"
proof -
  have f: "is_failure (fst (net j))"
    using assms(2) by (simp add: transport_failure_def)
  obtain x w1 where t: "attemptConnection_try P opts (fst (net j)) w = (x, w1)"
    by (cases "attemptConnection_try P opts (fst (net j)) w")
  have x: "x = Some (failure_error (fst (net j)))"
    using try_failure(1) [OF f, of P opts w] t by simp
  have r1: "\<not> int (retryCount (client w1)) < budget w1"
    using attemptConnection_try_budget(1) [of P opts "fst (net j)" w]
      try_budget [of P opts "fst (net j)" w] t assms(3) by simp
  note c = catch_reject [OF try_failure(2) [OF f] r1, of opts "snd (net j)"]
  show ?thesis
    using assms(1) t x c by (subst attemptConnection.simps) simp
qed

lemma failures_then_success:
  assumes "abortController (client w) = Some False"
    and "\<forall>i<n. transport_failure (net (j + i))"
    and "fst (net (j + n)) = Body chunks EndOfStream"
    and "int (retryCount (client w)) + int n \<le> budget w"
  shows "fst (attemptConnection P opts net j w) = Inr () \<and>
         retryCount (client (snd (attemptConnection P opts net j w))) = retryCount (client w) + n \<and>
         fetches (snd (attemptConnection P opts net j w)) = fetches w + n + 1"
  using assms
proof (induction n arbitrary: j w)
  case 0
  then show ?case
    by (simp add: attemptConnection_success_step try_success)
next
  case (Suc n)
  let ?r = "fst (net j)"
  let ?w1 = "snd (attemptConnection_try P opts ?r w)"
  let ?w2 = "snd (attemptConnection_catch opts (failure_error ?r) False ?w1)"
  have tf: "transport_failure (net j)" using Suc.prems(2) by (metis add.right_neutral zero_less_Suc)
  then have f: "is_failure ?r" by (simp add: transport_failure_def)
  have lt: "int (retryCount (client w)) < budget w" using Suc.prems(4) by simp
  have a1: "abortController (client ?w1) = Some False"
    by (simp add: try_failure(3) [OF f] Suc.prems(1))
  have r1: "int (retryCount (client ?w1)) < budget ?w1" using lt by simp
  note cr = catch_retry [OF try_failure(2) [OF f] r1 a1, of opts]
  have step: "attemptConnection P opts net j w = attemptConnection P opts net (Suc j) ?w2"
    by (rule attemptConnection_retry_step [of w net j, OF Suc.prems(1) tf lt])
  have rest: "\<forall>i<n. transport_failure (net (Suc j + i))"
    using Suc.prems(2) by (metis Suc_less_eq add_Suc_shift)
  have succ: "fst (net (Suc j + n)) = Body chunks EndOfStream"
    using Suc.prems(3) by simp
  have bud: "int (retryCount (client ?w2)) + int n \<le> budget ?w2"
    using cr(2,4) Suc.prems(4) by simp
  have fe: "fetches ?w2 = Suc (fetches w)"
    by (simp add: cr(5) try_failure(4) [OF f])
  show ?case
    using Suc.IH [OF cr(3) rest succ bud] step cr(2) fe by simp
qed

lemma failures_exhaust:
  assumes "abortController (client w) = Some False"
    and "\<forall>i. transport_failure (net i)"
    and "nat (budget w - int (retryCount (client w))) = m"
  shows "fst (attemptConnection P opts net j w) = Inl (failure_error (fst (net (j + m)))) \<and>
         retryCount (client (snd (attemptConnection P opts net j w))) = retryCount (client w) + m \<and>
         fetches (snd (attemptConnection P opts net j w)) = fetches w + m + 1 \<and>
         isConnected (client (snd (attemptConnection P opts net j w))) = False \<and>
         (\<exists>a. app (snd (attemptConnection P opts net j w))
                = onError opts (failure_error (fst (net (j + m)))) (onConnectionChange opts ConnError a))"
  using assms
proof (induction m arbitrary: j w)
  case 0
  have tf: "transport_failure (net j)" using "0.prems"(2) by simp
  have ge: "\<not> int (retryCount (client w)) < budget w" using "0.prems"(3) by simp
  have f: "is_failure (fst (net j))" using tf by (simp add: transport_failure_def)
  show ?case
    using try_failure(4) [OF f, of P opts w]
    by (auto simp add: attemptConnection_giveup_step [of w net j, OF "0.prems"(1) tf ge])
next
  case (Suc m)
  let ?r = "fst (net j)"
  let ?w1 = "snd (attemptConnection_try P opts ?r w)"
  let ?w2 = "snd (attemptConnection_catch opts (failure_error ?r) False ?w1)"
  have tf: "transport_failure (net j)" using Suc.prems(2) by simp
  then have f: "is_failure ?r" by (simp add: transport_failure_def)
  have lt: "int (retryCount (client w)) < budget w" using Suc.prems(3) by linarith
  have a1: "abortController (client ?w1) = Some False"
    by (simp add: try_failure(3) [OF f] Suc.prems(1))
  have r1: "int (retryCount (client ?w1)) < budget ?w1" using lt by simp
  note cr = catch_retry [OF try_failure(2) [OF f] r1 a1, of opts]
  have step: "attemptConnection P opts net j w = attemptConnection P opts net (Suc j) ?w2"
    by (rule attemptConnection_retry_step [of w net j, OF Suc.prems(1) tf lt])
  have bud: "nat (budget ?w2 - int (retryCount (client ?w2))) = m"
    using cr(2,4) Suc.prems(3) by simp
  have fe: "fetches ?w2 = Suc (fetches w)"
    by (simp add: cr(5) try_failure(4) [OF f])
  show ?case
    using Suc.IH [where j = "Suc j", OF cr(3) Suc.prems(2) bud] step cr(2) fe by simp
qed

lemma connect_start [simp]:
  "budget (w\<lparr>client := (client w)\<lparr>abortController := Some False, retryCount := 0\<rparr>\<rparr>) = budget w"
  "fetches (w\<lparr>client := (client w)\<lparr>abortController := Some False, retryCount := 0\<rparr>\<rparr>) = fetches w"
  by (simp_all add: budget_def fetches_def)

text \<open>
  Claim C7. When every attempt of one \<^verbatim>\<open>connect()\<close> is a transport failure, the call
  issues exactly one request more than the retry budget and then stops: the promise
  rejects with the error of the last attempt, the counter equals the budget, the
  client is not connected, and the last two callbacks were
  \<^verbatim>\<open>onConnectionChange('error')\<close> and \<^verbatim>\<open>onError\<close>; nothing further is attempted. A manual
  \<^verbatim>\<open>connect()\<close> starts from a counter of zero whatever the counter was before.
\<close>

theorem retry_budget_exhausted:
  assumes "\<forall>j. transport_failure (net j)"
  shows "fst (connect JSON_parse opts net w) = Inl (failure_error (fst (net (nat (budget w))))) \<and>
         fetches (snd (connect JSON_parse opts net w)) = fetches w + nat (budget w) + 1 \<and>
         retryCount (client (snd (connect JSON_parse opts net w))) = nat (budget w) \<and>
         isConnected (client (snd (connect JSON_parse opts net w))) = False \<and>
         (\<exists>a. app (snd (connect JSON_parse opts net w))
                = onError opts (failure_error (fst (net (nat (budget w)))))
                    (onConnectionChange opts ConnError a)) \<and>
         connect JSON_parse opts net (w\<lparr>client := (client w)\<lparr>retryCount := n\<rparr>\<rparr>)
           = connect JSON_parse opts net w"
proof -
  let ?w0 = "w\<lparr>client := (client w)\<lparr>abortController := Some False, retryCount := 0\<rparr>\<rparr>"
  have a: "abortController (client ?w0) = Some False" by simp
  have m: "nat (budget ?w0 - int (retryCount (client ?w0))) = nat (budget w)" by simp
  note e = failures_exhaust [where j = 0 and P = JSON_parse and opts = opts, OF a assms m]
  show ?thesis using e by (simp add: connect_def)
qed

text \<open>The chat store's client (budget 3) against a server that refuses every connection:
  four requests, then the error, and the store's connection status stays \<^verbatim>\<open>error\<close>.\<close>

theorem retry_budget_exhausted_witness:
  "(\<forall>j. transport_failure ((\<lambda>k. (FetchRejects ''connection refused'', False)) j)) \<and>
   fst (connect example_parse (chatOptions example_environment)
          (\<lambda>k. (FetchRejects ''connection refused'', False)) initial_world)
     = Inl (Error ''connection refused'') \<and>
   fetches (snd (connect example_parse (chatOptions example_environment)
          (\<lambda>k. (FetchRejects ''connection refused'', False)) initial_world)) = 4 \<and>
   retryCount (client (snd (connect example_parse (chatOptions example_environment)
          (\<lambda>k. (FetchRejects ''connection refused'', False)) initial_world))) = 3 \<and>
   connectionStatus (store (app (snd (connect example_parse (chatOptions example_environment)
          (\<lambda>k. (FetchRejects ''connection refused'', False)) initial_world)))) = ConnError"
proof -
  have "connectionStatus (store (app (snd (connect example_parse (chatOptions example_environment)
          (\<lambda>k. (FetchRejects ''connection refused'', False)) initial_world)))) = ConnError"
    by code_simp
  then show ?thesis
    using retry_budget_exhausted [of "\<lambda>k. (FetchRejects ''connection refused'', False)"
        example_parse "chatOptions example_environment" initial_world]
    by (simp add: transport_failure_def budget_def fetches_def initial_world_def
        SSEClient_new_def chatOptions_def js_or_def)
qed

text \<open>
  Claim C6, as the code has it. The counter is set to zero by \<^verbatim>\<open>connect()\<close> only. A
  successful attempt leaves it as it is: when the first \<open>k\<close> attempts of a \<^verbatim>\<open>connect()\<close>
  are transport failures (\<open>k\<close> within the budget) and attempt \<open>k\<close> is answered by a stream
  that ends normally, the promise resolves and the counter read afterwards is \<open>k\<close>.
\<close>

theorem retry_counter_kept_by_success:
  assumes "\<forall>i<k. transport_failure (net i)"
    and "fst (net k) = Body chunks EndOfStream"
    and "int k \<le> budget w"
  shows "fst (connect JSON_parse opts net w) = Inr () \<and>
         retryCount (client (snd (connect JSON_parse opts net w))) = k"
proof -
  let ?w0 = "w\<lparr>client := (client w)\<lparr>abortController := Some False, retryCount := 0\<rparr>\<rparr>"
  have a: "abortController (client ?w0) = Some False" by simp
  have f: "\<forall>i<k. transport_failure (net (0 + i))" using assms(1) by simp
  have s: "fst (net (0 + k)) = Body chunks EndOfStream" using assms(2) by simp
  have b: "int (retryCount (client ?w0)) + int k \<le> budget ?w0" using assms(3) by simp
  note e = failures_then_success [where P = JSON_parse and opts = opts, OF a f s b]
  show ?thesis using e by (simp add: connect_def)
qed

text \<open>One failure, then an empty stream: the counter is 1.\<close>

theorem retry_counter_kept_by_success_witness:
  "transport_failure ((\<lambda>k::nat. if k < 1 then (NoBody, False) else (Body [] EndOfStream, False)) 0) \<and>
   fst (connect example_parse (chatOptions example_environment)
          (\<lambda>k. if k < 1 then (NoBody, False) else (Body [] EndOfStream, False)) initial_world) = Inr () \<and>
   retryCount (client (snd (connect example_parse (chatOptions example_environment)
          (\<lambda>k. if k < 1 then (NoBody, False) else (Body [] EndOfStream, False)) initial_world))) = 1"
  using retry_counter_kept_by_success [of 1
      "\<lambda>k. if k < 1 then (NoBody, False) else (Body [] EndOfStream, False)" "[]"
      initial_world example_parse "chatOptions example_environment"]
  by (simp add: transport_failure_def budget_def initial_world_def
      SSEClient_new_def chatOptions_def js_or_def)

text \<open>
  Claim C6 as stated fails: two refused connections, then a stream that delivers one
  chunk and ends. The attempt succeeds, and the counter is 2 afterwards, not 0.
\<close>

theorem retry_counter_not_reset_counterexample:
  \<open>fst (connect example_parse (chatOptions example_environment)
          (\<lambda>k. if k < 2 then (FetchRejects ''connection refused'', False)
                else (Body [''data: {"type":"chunk","content":"Hel"}\<newline>''] EndOfStream, False))
          initial_world) = Inr () \<and>
   retryCount (client (snd (connect example_parse (chatOptions example_environment)
          (\<lambda>k. if k < 2 then (FetchRejects ''connection refused'', False)
                else (Body [''data: {"type":"chunk","content":"Hel"}\<newline>''] EndOfStream, False))
          initial_world))) = 2\<close>
  by code_simp

section \<open>Progress events for unknown jobs\<close>

lemma updateJobStatus_ids:
  "jid = upd_jobId updates \<Longrightarrow>
   map jobId (processingJobs (updateJobStatus jid updates s)) = map jobId (processingJobs s)"
  by (auto simp add: updateJobStatus_def spread_job_def split: option.splits)

lemma updateJobStatus_unknown:
  "b \<notin> set (map jobId (processingJobs s)) \<Longrightarrow> updateJobStatus (Some b) updates s = s"
proof -
  assume "b \<notin> set (map jobId (processingJobs s))"
  then have "map (\<lambda>job. if Some (jobId job) = Some b then spread_job job updates else job)
               (processingJobs s) = processingJobs s"
    by (intro map_idI) auto
  then show ?thesis by (simp add: updateJobStatus_def)
qed

text \<open>
  Claim C3, as the code has it. A \<^verbatim>\<open>job_progress\<close> event whose job id is not in the job
  collection leaves the store as it is: \<^verbatim>\<open>updateJobStatus\<close> maps over the jobs it has and
  inserts none. For every job collection, the event keeps the list of job ids unchanged
  (so an id that appeared at most once still does).
\<close>

theorem progress_for_unknown_job_is_noop:
  assumes "JSON_parse data = Some update" and "upd_jobId update = Some b"
  shows "(b \<notin> set (map jobId (processingJobs (testStore w)))
            \<longrightarrow> on_job_progress JSON_parse data w = w) \<and>
         map jobId (processingJobs (testStore (on_job_progress JSON_parse data w)))
           = map jobId (processingJobs (testStore w))"
  using assms
  by (simp add: on_job_progress_def updateJobStatus_unknown updateJobStatus_ids)

text \<open>Progress for job \<^verbatim>\<open>b\<close> on the empty collection.\<close>

theorem progress_for_unknown_job_is_noop_witness:
  \<open>on_job_progress example_parse_update ''{"jobId":"b","progress":10}'' initial_etl_world
     = initial_etl_world\<close>
  using progress_for_unknown_job_is_noop
    [of example_parse_update \<open>''{"jobId":"b","progress":10}''\<close> _ "''b''" initial_etl_world]
  by (simp add: example_parse_update_def initial_etl_world_def)

text \<open>
  Claim C3 as stated fails: after progress for \<^verbatim>\<open>b\<close> on a collection that holds job
  \<^verbatim>\<open>a\<close> only, the collection still holds job \<^verbatim>\<open>a\<close> only; there is no job \<^verbatim>\<open>b\<close>.
\<close>

theorem progress_for_unknown_job_counterexample:
  \<open>map jobId (processingJobs (testStore
      (on_job_progress example_parse_update ''{"jobId":"b","progress":10}''
         (initial_etl_world\<lparr>testStore := addJob example_job (testStore initial_etl_world)\<rparr>))))
     = [''a'']\<close>
  by code_simp

section \<open>Accumulating a chat stream\<close>

text \<open>
  With the chat store's callbacks, a line that is not the sentinel changes the store
  only through \<^verbatim>\<open>onMessage\<close> on the fragment decoded from it. Between fragments the
  invariant \<open>streaming\<close> holds, and a \<^verbatim>\<open>chunk\<close> fragment re-establishes it with the longer
  text.
\<close>

lemma startsWith_data: "startsWith t ''data: '' \<longleftrightarrow> take 6 t = ''data: ''"
  by (simp add: startsWith_def eval_nat_numeral)

lemma is_done_line_iff:
  "is_done_line l \<longleftrightarrow> startsWith (trim l) ''data: '' \<and> drop 6 (trim l) = ''[DONE]''"
proof
  assume "is_done_line l"
  then show "startsWith (trim l) ''data: '' \<and> drop 6 (trim l) = ''[DONE]''"
    by (simp add: is_done_line_def startsWith_data)
next
  assume a: "startsWith (trim l) ''data: '' \<and> drop 6 (trim l) = ''[DONE]''"
  have "trim l = take 6 (trim l) @ drop 6 (trim l)" by simp
  also have "\<dots> = ''data: '' @ ''[DONE]''" using a by (simp add: startsWith_data)
  finally show "is_done_line l" by (simp add: is_done_line_def)
qed

lemma processLine_chat_app:
  assumes "\<not> is_done_line l"
  shows "app (processLine P (chatOptions E) l w) =
           (case fragment_of P l of
              None \<Rightarrow> app w
            | Some d \<Rightarrow> (case chat_onMessage E d (app w) of Inl e \<Rightarrow> app w | Inr a \<Rightarrow> a))"
proof (cases "startsWith (trim l) ''data: ''")
  case True
  then have nd: "drop 6 (trim l) \<noteq> ''[DONE]''" using assms by (simp add: is_done_line_iff)
  show ?thesis
    using True nd startsWith_data_not_comment [OF True]
    by (simp add: processLine_def fragment_of_def data_payload_def chatOptions_def
        split: option.splits sum.splits)
next
  case False
  then show ?thesis
    by (simp add: processLine_def fragment_of_def data_payload_def Let_def split: option.splits)
qed

lemma replace_message_same:
  "\<forall>x\<in>set xs. msg_id x = msg_id m \<longrightarrow> x = m \<Longrightarrow> replace_message m xs = xs"
  by (induction xs) (auto simp add: replace_message_def)

lemma current_messages_mapped:
  "concat (map messages (filter (\<lambda>c. Some (conv_id c) = cid)
       (map (\<lambda>c. if Some (conv_id c) = cid
                  then c\<lparr>messages := map h (messages c), conv_updatedAt := t\<rparr> else c) cs)))
   = map h (concat (map messages (filter (\<lambda>c. Some (conv_id c) = cid) cs)))"
  by (induction cs) simp_all

lemma replace_lambda:
  "msg_id m2 = msg_id m1 \<Longrightarrow>
   map (\<lambda>x. if msg_id x = msg_id m1 then m2 else x) (replace_message m1 xs) = replace_message m2 xs"
  by (induction xs) (simp_all add: replace_message_def)

lemma updateStreamingMessage_streaming:
  assumes "streaming msgs0 shown0 cid m' a" and "truthy cid"
  shows "streaming msgs0 shown0 cid (m'\<lparr>msg_content := text\<rparr>)
           (updateStreamingMessage E text (a\<lparr>accumulatedContent := text\<rparr>))"
proof -
  have sm: "streamingMessage (store a) = Some m'"
    and cid: "currentConversationId (store a) = cid"
    and cur: "current_messages (store a) = replace_message m' msgs0"
    and sh: "shown_messages (store a) = replace_message m' shown0"
    using assms(1) by (simp_all add: streaming_def)
  let ?m2 = "m'\<lparr>msg_content := text\<rparr>"
  have id2: "msg_id ?m2 = msg_id m'" by simp
  let ?a' = "updateStreamingMessage E text (a\<lparr>accumulatedContent := text\<rparr>)"
  have 1: "streamingMessage (store ?a') = Some ?m2"
    using sm cid assms(2)
    by (simp add: updateStreamingMessage_def set_state_def tick_def Let_def)
  have 2: "accumulatedContent ?a' = text"
    using sm cid assms(2)
    by (simp add: updateStreamingMessage_def set_state_def tick_def Let_def)
  have 3: "currentConversationId (store ?a') = cid"
    using sm cid assms(2)
    by (simp add: updateStreamingMessage_def set_state_def tick_def Let_def)
  have 4: "current_messages (store ?a') = replace_message ?m2 msgs0"
    using sm cid assms(2) cur replace_lambda [OF id2, of msgs0]
    by (simp add: updateStreamingMessage_def set_state_def tick_def Let_def
        current_messages_def current_messages_mapped)
  have 5: "shown_messages (store ?a') = replace_message ?m2 shown0"
    using sm cid assms(2) sh replace_lambda [OF id2, of shown0]
    by (auto simp add: updateStreamingMessage_def set_state_def tick_def Let_def
        shown_messages_def replace_message_def split: option.splits)
  show ?thesis using 1 2 3 4 5 by (simp add: streaming_def)
qed

lemma chat_onMessage_chunk:
  assumes "streaming msgs0 shown0 cid m' a" and "truthy cid" and "resp_type d = Chunk"
  shows "\<exists>a'. chat_onMessage E d a = Inr a' \<and>
           streaming msgs0 shown0 cid (m'\<lparr>msg_content := msg_content m' @ resp_content d\<rparr>) a'"
proof -
  have acc: "accumulatedContent a = msg_content m'"
    using assms(1) by (simp add: streaming_def)
  show ?thesis
    using updateStreamingMessage_streaming [OF assms(1,2), of "msg_content m' @ resp_content d" E]
      assms(3) acc
    by (simp add: chat_onMessage_def Let_def)
qed

lemma chunk_text_single:
  "chunk_text P [l] =
     (case fragment_of P l of
        None \<Rightarrow> []
      | Some d \<Rightarrow> if resp_type d = Chunk then resp_content d else [])"
  by (simp add: chunk_text_def List.map_filter_def split: option.splits)

lemma chunk_text_Cons: "chunk_text P (l # ls) = chunk_text P [l] @ chunk_text P ls"
  by (simp add: chunk_text_def List.map_filter_def)

lemma processLine_streaming:
  assumes "streaming msgs0 shown0 cid m' (app w)" and "truthy cid" and "no_completion P l"
  shows "streaming msgs0 shown0 cid (m'\<lparr>msg_content := msg_content m' @ chunk_text P [l]\<rparr>)
           (app (processLine P (chatOptions E) l w))"
proof -
  have nd: "\<not> is_done_line l" using assms(3) by (simp add: no_completion_def)
  note app = processLine_chat_app [OF nd, of P E w]
  show ?thesis
  proof (cases "fragment_of P l")
    case None
    then show ?thesis using assms(1) app by (simp add: chunk_text_single)
  next
    case (Some d)
    then have nc: "resp_type d \<noteq> Complete" using assms(3) by (simp add: no_completion_def)
    show ?thesis
    proof (cases "resp_type d = Chunk")
      case True
      obtain a' where a': "chat_onMessage E d (app w) = Inr a'"
        and s': "streaming msgs0 shown0 cid (m'\<lparr>msg_content := msg_content m' @ resp_content d\<rparr>) a'"
        using chat_onMessage_chunk [OF assms(1,2) True, of E] by blast
      show ?thesis using Some True a' s' app by (simp add: chunk_text_single)
    next
      case False
      then have "chat_onMessage E d (app w) = Inl (Error (resp_content d))"
        using nc by (simp add: chat_onMessage_def)
      then show ?thesis using Some False assms(1) app by (simp add: chunk_text_single)
    qed
  qed
qed

lemma processLines_streaming:
  assumes "streaming msgs0 shown0 cid m' (app w)" and "truthy cid"
    and "\<forall>l\<in>set ls. no_completion P l"
  shows "streaming msgs0 shown0 cid (m'\<lparr>msg_content := msg_content m' @ chunk_text P ls\<rparr>)
           (app (foldl (\<lambda>w line. processLine P (chatOptions E) line w) w ls))"
  using assms
proof (induction ls arbitrary: w m')
  case Nil
  then show ?case by (simp add: chunk_text_def List.map_filter_def)
next
  case (Cons l ls)
  have nl: "no_completion P l" and rest: "\<forall>l\<in>set ls. no_completion P l"
    using Cons.prems(3) by simp_all
  note step = processLine_streaming [OF Cons.prems(1,2) nl, of E]
  show ?case
    using Cons.IH [OF step Cons.prems(2) rest]
    by (simp add: chunk_text_Cons [of P l ls])
qed

lemma processLine_finalMetadata:
  assumes "no_completion P l"
  shows "finalMetadata (app (processLine P (chatOptions E) l w)) = finalMetadata (app w)"
proof -
  have nd: "\<not> is_done_line l" using assms by (simp add: no_completion_def)
  show ?thesis
    using assms
    by (auto simp add: processLine_chat_app [OF nd] no_completion_def chat_onMessage_def
        updateStreamingMessage_def set_state_def tick_def Let_def
        split: option.splits sum.splits if_splits)
qed

lemma processLines_finalMetadata:
  "\<forall>l\<in>set ls. no_completion P l \<Longrightarrow>
   finalMetadata (app (foldl (\<lambda>w line. processLine P (chatOptions E) line w) w ls))
     = finalMetadata (app w)"
  by (induction ls arbitrary: w) (simp_all add: processLine_finalMetadata)

lemma chat_onComplete_streaming:
  assumes "streaming msgs0 shown0 cid m' a" and "truthy cid"
  shows "isStreaming (store (chat_onComplete E a)) = False"
    and "streamingMessage (store (chat_onComplete E a)) = None"
    and "current_messages (store (chat_onComplete E a))
           = replace_message (m'\<lparr>msg_isStreaming := False, msg_metadata := finalMetadata a\<rparr>) msgs0"
    and "shown_messages (store (chat_onComplete E a))
           = replace_message (m'\<lparr>msg_isStreaming := False, msg_metadata := finalMetadata a\<rparr>) shown0"
proof -
  have sm: "streamingMessage (store a) = Some m'"
    and acc: "accumulatedContent a = msg_content m'"
    and cid: "currentConversationId (store a) = cid"
    and cur: "current_messages (store a) = replace_message m' msgs0"
    and sh: "shown_messages (store a) = replace_message m' shown0"
    using assms(1) by (simp_all add: streaming_def)
  let ?m2 = "m'\<lparr>msg_isStreaming := False, msg_metadata := finalMetadata a\<rparr>"
  have id2: "msg_id ?m2 = msg_id m'" by simp
  have eq: "m'\<lparr>msg_content := msg_content m', msg_isStreaming := False, msg_metadata := finalMetadata a\<rparr> = ?m2"
    by simp
  show "isStreaming (store (chat_onComplete E a)) = False"
    and "streamingMessage (store (chat_onComplete E a)) = None"
    by (simp_all add: chat_onComplete_def set_state_def)
  show "current_messages (store (chat_onComplete E a)) = replace_message ?m2 msgs0"
    using sm acc cid assms(2) cur replace_lambda [OF id2, of msgs0]
    by (simp add: chat_onComplete_def completeStreamingMessage_def set_state_def tick_def Let_def
        current_messages_def current_messages_mapped)
  show "shown_messages (store (chat_onComplete E a)) = replace_message ?m2 shown0"
    using sm acc cid assms(2) sh replace_lambda [OF id2, of shown0]
    by (auto simp add: chat_onComplete_def completeStreamingMessage_def set_state_def tick_def Let_def
        shown_messages_def replace_message_def split: option.splits)
qed

lemma streaming_initially:
  assumes "streamingMessage (store a) = Some m"
    and "accumulatedContent a = msg_content m"
    and "\<forall>x\<in>set (current_messages (store a) @ shown_messages (store a)). msg_id x = msg_id m \<longrightarrow> x = m"
  shows "streaming (current_messages (store a)) (shown_messages (store a))
           (currentConversationId (store a)) m a"
  using assms by (simp add: streaming_def replace_message_same)

lemma complete_lines_append:
  "complete_lines (chunks @ later)
     = complete_lines chunks @ butlast (split_nl (last (split_nl (concat chunks)) @ concat later))"
  by (simp add: complete_lines_def split_nl_append [of "concat chunks"] butlast_append)

lemma chunk_text_append: "chunk_text P (xs @ ys) = chunk_text P xs @ chunk_text P ys"
  by (simp add: chunk_text_def List.map_filter_def)

text \<open>\<^verbatim>\<open>onError\<close> has set \<^verbatim>\<open>streamingMessage\<close> to \<^verbatim>\<open>null\<close> before it reads it back, so
  the branch that filters the placeholder out is never taken.\<close>

lemma chat_onError_keeps_conversations:
  "conversations (store (chat_onError E err a)) = conversations (store a) \<and>
   currentConversation (store (chat_onError E err a)) = currentConversation (store a)"
  by (simp add: chat_onError_def set_state_def Let_def)

text \<open>
  Claim C1. While a chat stream has delivered neither a \<^verbatim>\<open>complete\<close> fragment nor the
  \<^verbatim>\<open>[DONE]\<close> sentinel, the streaming message is the placeholder with the contents of
  all \<^verbatim>\<open>chunk\<close> fragments received so far appended in arrival order, in the store's
  \<open>streamingMessage\<close>, in the current conversation and in \<open>currentConversation\<close>; no
  message is added, removed or reordered. Receiving more of the stream only extends
  that text.
\<close>

theorem chunks_concatenate:
  assumes "streamingMessage (store (app w)) = Some m"
    and "accumulatedContent (app w) = msg_content m"
    and "truthy (currentConversationId (store (app w)))"
    and "\<forall>x\<in>set (current_messages (store (app w)) @ shown_messages (store (app w))).
           msg_id x = msg_id m \<longrightarrow> x = m"
    and "\<forall>l\<in>set (complete_lines chunks). no_completion JSON_parse l"
  shows "streamingMessage (store (app (snd (processChunks JSON_parse (chatOptions E) chunks [] w))))
           = Some (m\<lparr>msg_content := msg_content m @ chunk_text JSON_parse (complete_lines chunks)\<rparr>) \<and>
         current_messages (store (app (snd (processChunks JSON_parse (chatOptions E) chunks [] w))))
           = replace_message
               (m\<lparr>msg_content := msg_content m @ chunk_text JSON_parse (complete_lines chunks)\<rparr>)
               (current_messages (store (app w))) \<and>
         shown_messages (store (app (snd (processChunks JSON_parse (chatOptions E) chunks [] w))))
           = replace_message
               (m\<lparr>msg_content := msg_content m @ chunk_text JSON_parse (complete_lines chunks)\<rparr>)
               (shown_messages (store (app w))) \<and>
         (\<exists>rest. chunk_text JSON_parse (complete_lines (chunks @ later))
                  = chunk_text JSON_parse (complete_lines chunks) @ rest)"
proof -
  note init = streaming_initially [OF assms(1,2,4)]
  note inv = processLines_streaming [OF init assms(3), of "complete_lines chunks" JSON_parse E]
  have "\<exists>rest. chunk_text JSON_parse (complete_lines (chunks @ later))
                  = chunk_text JSON_parse (complete_lines chunks) @ rest"
    by (simp add: complete_lines_append chunk_text_append)
  then show ?thesis
    using inv assms(5)
    by (simp add: processChunks_lines streaming_def complete_lines_def)
qed

text \<open>The example world \<open>streaming_world\<close> is the one \<^verbatim>\<open>sendMessage('hi')\<close> reaches on the
  initial store when the response arrives: from there on the two runs agree.\<close>

lemma streaming_world_reached:
  "snd (sendMessage example_parse example_environment
          (\<lambda>k. (Body example_chunks EndOfStream, False)) ''hi'' initial_world)
     = snd (processStream example_parse (chatOptions example_environment) example_chunks EndOfStream
              streaming_world)"
  by code_simp

text \<open>A stream of two chunk fragments, \<^verbatim>\<open>Hel\<close> and \<^verbatim>\<open>lo\<close>, the second cut in the middle of
  its line.\<close>

theorem chunks_concatenate_witness:
  "map_option msg_content (streamingMessage (store (app (snd
      (processChunks example_parse (chatOptions example_environment) example_chunks [] streaming_world)))))
     = Some ''Hello'' \<and>
   map msg_content (current_messages (store (app (snd
      (processChunks example_parse (chatOptions example_environment) example_chunks [] streaming_world)))))
     = [''hi'', ''Hello'']"
proof -
  have 1: "streamingMessage (store (app streaming_world)) = Some example_placeholder"
    by (simp add: streaming_world_def)
  have 2: "accumulatedContent (app streaming_world) = msg_content example_placeholder"
    by (simp add: streaming_world_def example_placeholder_def)
  have 3: "truthy (currentConversationId (store (app streaming_world)))"
    by (simp add: streaming_world_def truthy_def)
  have 4: "\<forall>x\<in>set (current_messages (store (app streaming_world))
                     @ shown_messages (store (app streaming_world))).
             msg_id x = msg_id example_placeholder \<longrightarrow> x = example_placeholder"
    by code_simp
  have 5: "\<forall>l\<in>set (complete_lines example_chunks). no_completion example_parse l"
    by code_simp
  have t: "chunk_text example_parse (complete_lines example_chunks) = ''Hello''"
    by code_simp
  have c: "current_messages (store (app streaming_world)) = [example_user_message, example_placeholder]"
    by (simp add: current_messages_def streaming_world_def example_conversation_def)
  show ?thesis
    using chunks_concatenate [OF 1 2 3 4 5, where E = example_environment and later = "[]"]
    by (simp add: t c replace_message_def example_placeholder_def example_user_message_def)
qed

text \<open>
  Claim C10. When the transport reports the end of a stream that carried neither a
  \<^verbatim>\<open>complete\<close> fragment nor the \<^verbatim>\<open>[DONE]\<close> sentinel, \<^verbatim>\<open>processStream\<close> returns normally, the
  completion callback has run, and the placeholder is finalized, not discarded: its
  content is the concatenation of the chunk contents, its \<open>isStreaming\<close> is false, it
  stands where it stood in its conversation, and the store is no longer streaming.
\<close>

theorem stream_end_finalizes:
  assumes "streamingMessage (store (app w)) = Some m"
    and "accumulatedContent (app w) = msg_content m"
    and "truthy (currentConversationId (store (app w)))"
    and "\<forall>x\<in>set (current_messages (store (app w)) @ shown_messages (store (app w))).
           msg_id x = msg_id m \<longrightarrow> x = m"
    and "\<forall>l\<in>set (complete_lines chunks). no_completion JSON_parse l"
    and "final = m\<lparr>msg_content := msg_content m @ chunk_text JSON_parse (complete_lines chunks),
                    msg_isStreaming := False, msg_metadata := finalMetadata (app w)\<rparr>"
    and "w' = snd (processStream JSON_parse (chatOptions E) chunks EndOfStream w)"
  shows "fst (processStream JSON_parse (chatOptions E) chunks EndOfStream w) = None \<and>
         isStreaming (store (app w')) = False \<and>
         streamingMessage (store (app w')) = None \<and>
         connectionStatus (store (app w')) = Disconnected \<and>
         current_messages (store (app w')) = replace_message final (current_messages (store (app w))) \<and>
         shown_messages (store (app w')) = replace_message final (shown_messages (store (app w))) \<and>
         (m \<in> set (current_messages (store (app w))) \<longrightarrow> final \<in> set (current_messages (store (app w'))))"
proof -
  let ?ls = "complete_lines chunks"
  let ?w1 = "foldl (\<lambda>w line. processLine JSON_parse (chatOptions E) line w) w ?ls"
  let ?m1 = "m\<lparr>msg_content := msg_content m @ chunk_text JSON_parse ?ls\<rparr>"
  note init = streaming_initially [OF assms(1,2,4)]
  note inv = processLines_streaming [OF init assms(3,5), of E]
  have fm: "finalMetadata (app ?w1) = finalMetadata (app w)"
    by (rule processLines_finalMetadata [OF assms(5)])
  note completed = chat_onComplete_streaming [OF inv assms(3), of E]
  have fin: "?m1\<lparr>msg_isStreaming := False, msg_metadata := finalMetadata (app ?w1)\<rparr> = final"
    by (simp add: assms(6) fm)
  have w': "app w' = set_state (\<lambda>s. s\<lparr>connectionStatus := Disconnected\<rparr>) (chat_onComplete E (app ?w1))"
    by (simp add: assms(7) processStream_def processChunks_lines complete_lines_def chatOptions_def Let_def)
  have cm: "current_messages (store (app w')) = replace_message final (current_messages (store (app w)))"
    using completed(3) fin by (simp add: w' set_state_def current_messages_def)
  have "m \<in> set (current_messages (store (app w))) \<Longrightarrow> final \<in> set (current_messages (store (app w')))"
  proof -
    assume "m \<in> set (current_messages (store (app w)))"
    moreover have "msg_id m = msg_id final" by (simp add: assms(6))
    ultimately have "final \<in> set (replace_message final (current_messages (store (app w))))"
      by (force simp add: replace_message_def)
    then show ?thesis using cm by simp
  qed
  moreover have "fst (processStream JSON_parse (chatOptions E) chunks EndOfStream w) = None"
    by (simp add: processStream_def Let_def)
  moreover have "shown_messages (store (app w')) = replace_message final (shown_messages (store (app w)))"
    using completed(4) fin by (simp add: w' set_state_def shown_messages_def)
  moreover have "isStreaming (store (app w')) = False" "streamingMessage (store (app w')) = None"
    "connectionStatus (store (app w')) = Disconnected"
    using completed(1,2) by (simp_all add: w' set_state_def)
  ultimately show ?thesis
    using cm by blast
qed

text \<open>The same two chunks, then the end of the stream.\<close>

theorem stream_end_finalizes_witness:
  "fst (processStream example_parse (chatOptions example_environment) example_chunks EndOfStream
          streaming_world) = None \<and>
   isStreaming (store (app (snd (processStream example_parse (chatOptions example_environment)
          example_chunks EndOfStream streaming_world)))) = False \<and>
   current_messages (store (app (snd (processStream example_parse (chatOptions example_environment)
          example_chunks EndOfStream streaming_world))))
     = [example_user_message,
        example_placeholder\<lparr>msg_content := ''Hello'', msg_isStreaming := False\<rparr>]"
proof -
  have 1: "streamingMessage (store (app streaming_world)) = Some example_placeholder"
    by (simp add: streaming_world_def)
  have 2: "accumulatedContent (app streaming_world) = msg_content example_placeholder"
    by (simp add: streaming_world_def example_placeholder_def)
  have 3: "truthy (currentConversationId (store (app streaming_world)))"
    by (simp add: streaming_world_def truthy_def)
  have 4: "\<forall>x\<in>set (current_messages (store (app streaming_world))
                     @ shown_messages (store (app streaming_world))).
             msg_id x = msg_id example_placeholder \<longrightarrow> x = example_placeholder"
    by code_simp
  have 5: "\<forall>l\<in>set (complete_lines example_chunks). no_completion example_parse l"
    by code_simp
  have t: "chunk_text example_parse (complete_lines example_chunks) = ''Hello''"
    by code_simp
  have c: "current_messages (store (app streaming_world)) = [example_user_message, example_placeholder]"
    by (simp add: current_messages_def streaming_world_def example_conversation_def)
  have f: "finalMetadata (app streaming_world) = None"
    by (simp add: streaming_world_def)
  show ?thesis
    using stream_end_finalizes [OF 1 2 3 4 5 refl refl, where E = example_environment]
    by (simp add: t c f replace_message_def example_placeholder_def example_user_message_def)
qed

section \<open>Failed turns\<close>

text \<open>
  Claim C2, evaluated. \<^verbatim>\<open>sendMessage('hi')\<close> on the initial store against a server that
  refuses every connection: after the fourth refusal \<^verbatim>\<open>onError\<close> runs (the error is on the
  console) and the promise rejects, and the placeholder \<^verbatim>\<open>id-2\<close> is still in the
  conversation. \<^verbatim>\<open>onError\<close> sets \<^verbatim>\<open>streamingMessage\<close> to \<^verbatim>\<open>null\<close> before it looks the
  message up, so it never changes \<open>conversations\<close>.
\<close>

theorem failed_turn_keeps_placeholder:
  "fst (sendMessage example_parse example_environment
          (\<lambda>k. (FetchRejects ''connection refused'', False)) ''hi'' initial_world)
     = Inl (Error ''connection refused'') \<and>
   console_errors (app (snd (sendMessage example_parse example_environment
          (\<lambda>k. (FetchRejects ''connection refused'', False)) ''hi'' initial_world)))
     = [Error ''connection refused''] \<and>
   map msg_id (current_messages (store (app (snd (sendMessage example_parse example_environment
          (\<lambda>k. (FetchRejects ''connection refused'', False)) ''hi'' initial_world)))))
     = [''id-0'', ''id-2''] \<and>
   conversations (store (chat_onError example_environment (Error ''boom'') (app streaming_world)))
     = conversations (store (app streaming_world))"
  by code_simp

text \<open>
  Claim C4, evaluated. A stream that carries a chunk, an \<^verbatim>\<open>error\<close> fragment and another
  chunk: the exception \<^verbatim>\<open>onMessage\<close> throws for the \<^verbatim>\<open>error\<close> fragment is caught by the
  \<^verbatim>\<open>try\<close> block of \<^verbatim>\<open>processLine\<close>, the stream goes on, \<^verbatim>\<open>onError\<close> never runs, and the turn
  ends as a success with both chunks in the message.
\<close>

theorem error_fragment_swallowed:
  "fst (sendMessage example_parse example_environment
          (\<lambda>k. (Body example_chunks_with_error EndOfStream, False)) ''hi'' initial_world) = Inr () \<and>
   fetches (snd (sendMessage example_parse example_environment
          (\<lambda>k. (Body example_chunks_with_error EndOfStream, False)) ''hi'' initial_world)) = 1 \<and>
   console_errors (app (snd (sendMessage example_parse example_environment
          (\<lambda>k. (Body example_chunks_with_error EndOfStream, False)) ''hi'' initial_world))) = [] \<and>
   error (store (app (snd (sendMessage example_parse example_environment
          (\<lambda>k. (Body example_chunks_with_error EndOfStream, False)) ''hi'' initial_world)))) = None \<and>
   map msg_content (current_messages (store (app (snd (sendMessage example_parse example_environment
          (\<lambda>k. (Body example_chunks_with_error EndOfStream, False)) ''hi'' initial_world)))))
     = [''hi'', ''Hello'']"
  by code_simp

end
